theory Spec2Isabelle
  imports Complex_Main
begin

section \<open>Supermarket inventory console: data model\<close>

text \<open>
  The repository is a TypeScript/React admin console. JavaScript numbers that hold
  money are modelled as exact rationals (\<open>rat\<close>), numbers that hold counts as
  \<open>int\<close>; an optional property (\<open>field?: T\<close>) is an \<open>option\<close>.
  Rounding of IEEE doubles is outside this model.
\<close>

datatype StockStatus = OUT_OF_STOCK | LOW_STOCK | NORMAL | OVERSTOCK

text \<open>An element of \<open>receiveData.items\<close> in \<open>PurchaseOrderService.receiveItems\<close>.\<close>

record ReceiveItem =
  item_id :: string
  quantity_received :: int
  quality_notes :: "string option"

text \<open>\<open>interface PurchaseOrderItem\<close> of \<open>purchaseOrderService.ts\<close>.\<close>

record PurchaseOrderItem =
  id :: "string option"
  product_id :: string
  quantity_ordered :: int
  quantity_received :: "int option"
  unit_price :: rat
  total_price :: "rat option"
  product_name :: "string option"
  product_sku :: "string option"
  supplier_sku :: "string option"
  is_received :: "bool option"
  is_quality_checked :: "bool option"
  quality_notes :: "string option"
  received_date :: "string option"

text \<open>\<open>interface ProductCreateData\<close> (\<open>productService.ts\<close>); \<open>ProductFormData\<close> of
  \<open>AddProductModal\<close> has the same properties and is the same type.\<close>

record ProductCreateData =
  name :: string
  description :: "string option"
  sku :: string
  barcode :: "string option"
  category :: string
  subcategory :: "string option"
  brand :: "string option"
  cost_price :: rat
  selling_price :: rat
  quantity_in_stock :: int
  min_stock_threshold :: int
  max_stock_threshold :: "int option"
  aisle :: "string option"
  shelf :: "string option"
  bin_location :: "string option"
  warehouse_id :: "string option"
  unit_of_measure :: string
  weight :: "rat option"
  dimensions :: "string option"
  is_perishable :: bool
  expiry_date :: "string option"
  days_until_expiry_warning :: int
  supplier_id :: "string option"
  supplier_sku :: "string option"

type_synonym ProductFormData = ProductCreateData

text \<open>\<open>Partial<Product>\<close>: every property of \<open>Product\<close>, each optional. It is the type of
  the edit form's state and of the payload of an update.\<close>

record PartialProduct =
  id :: "string option"
  name :: "string option"
  description :: "string option"
  sku :: "string option"
  barcode :: "string option"
  category :: "string option"
  subcategory :: "string option"
  brand :: "string option"
  cost_price :: "rat option"
  selling_price :: "rat option"
  quantity_in_stock :: "int option"
  min_stock_threshold :: "int option"
  max_stock_threshold :: "int option"
  aisle :: "string option"
  shelf :: "string option"
  bin_location :: "string option"
  warehouse_id :: "string option"
  unit_of_measure :: "string option"
  weight :: "rat option"
  dimensions :: "string option"
  is_perishable :: "bool option"
  expiry_date :: "string option"
  days_until_expiry_warning :: "int option"
  supplier_id :: "string option"
  supplier_sku :: "string option"
  is_active :: "bool option"
  created_at :: "string option"
  updated_at :: "string option"
  created_by :: "string option"
  stock_status :: "StockStatus option"
  is_low_stock :: "bool option"
  is_out_of_stock :: "bool option"

text \<open>\<open>interface Product\<close> of \<open>services/productService.ts\<close>.\<close>

record Product =
  id :: string
  name :: string
  description :: "string option"
  sku :: string
  barcode :: "string option"
  category :: string
  subcategory :: "string option"
  brand :: "string option"
  cost_price :: rat
  selling_price :: rat
  quantity_in_stock :: int
  min_stock_threshold :: int
  max_stock_threshold :: "int option"
  aisle :: "string option"
  shelf :: "string option"
  bin_location :: "string option"
  warehouse_id :: "string option"
  unit_of_measure :: string
  weight :: "rat option"
  dimensions :: "string option"
  is_perishable :: bool
  expiry_date :: "string option"
  days_until_expiry_warning :: int
  supplier_id :: "string option"
  supplier_sku :: "string option"
  is_active :: bool
  created_at :: string
  updated_at :: string
  created_by :: "string option"
  stock_status :: StockStatus
  is_low_stock :: bool
  is_out_of_stock :: bool

section \<open>Create-purchase-order modal: the draft order\<close>

text \<open>\<open>interface OrderItem\<close> of \<open>CreatePurchaseOrderModal\<close>.\<close>

record OrderItem =
  id :: string
  product_id :: string
  product_name :: string
  product_sku :: string
  quantity_ordered :: int
  unit_price :: rat
  supplier_sku :: "string option"
  total_price :: rat

text \<open>Decimal rendering of a non-negative integer, as \<open>Number.prototype.toString\<close>
  and template literals produce it.\<close>

definition digit_char :: "nat \<Rightarrow> char" where
  "digit_char d = ''0123456789'' ! d"

fun toString :: "nat \<Rightarrow> string" where
  "toString n = (if n < 10 then [digit_char n] else toString (n div 10) @ [digit_char (n mod 10)])"

declare toString.simps [simp del]

text \<open>\<open>orderItems.findIndex(item => item.product_id === product.id)\<close>: the first
  matching index, \<open>None\<close> for JavaScript's \<open>-1\<close>.\<close>

fun findIndex :: "('a \<Rightarrow> bool) \<Rightarrow> 'a list \<Rightarrow> nat option" where
  "findIndex P [] = None"
| "findIndex P (x # xs) =
     (if P x then Some 0 else (case findIndex P xs of None \<Rightarrow> None | Some i \<Rightarrow> Some (Suc i)))"

text \<open>\<open>addProduct(product)\<close>; \<open>now\<close> is the value of \<open>Date.now()\<close> at the call.
  \<open>newItem\<close> is the object literal of the else-branch, \<open>bumped\<close> the existing item
  after the two assignments of the then-branch.\<close>

definition newItem :: "nat \<Rightarrow> Product \<Rightarrow> OrderItem" where
  "newItem now product =
     \<lparr> id = toString now,
       product_id = Product.id product,
       product_name = Product.name product,
       product_sku = Product.sku product,
       quantity_ordered = 1,
       unit_price = cost_price product,
       supplier_sku = None,
       total_price = cost_price product \<rparr>"

definition bumped :: "OrderItem \<Rightarrow> OrderItem" where
  "bumped item =
     (let item1 = item\<lparr>quantity_ordered := quantity_ordered item + 1\<rparr>
      in item1\<lparr>total_price := of_int (quantity_ordered item1) * unit_price item1\<rparr>)"

definition addProduct :: "nat \<Rightarrow> Product \<Rightarrow> OrderItem list \<Rightarrow> OrderItem list" where
  "addProduct now product orderItems =
     (case findIndex (\<lambda>item. product_id item = Product.id product) orderItems of
        Some existingItemIndex \<Rightarrow>
          orderItems[existingItemIndex := bumped (orderItems ! existingItemIndex)]
      | None \<Rightarrow> orderItems @ [newItem now product])"

text \<open>\<open>updateOrderItem(itemId, field, value)\<close>. The pair \<open>(field, value)\<close> of the
  source (\<open>field: keyof OrderItem\<close>, \<open>value: number | string\<close>) is one constructor
  per key, carrying the value.\<close>

datatype OrderItemUpdate =
    Set_id string
  | Set_product_id string
  | Set_product_name string
  | Set_product_sku string
  | Set_quantity_ordered int
  | Set_unit_price rat
  | Set_supplier_sku string
  | Set_total_price rat

fun assignField :: "OrderItem \<Rightarrow> OrderItemUpdate \<Rightarrow> OrderItem" where
  "assignField item (Set_id v) = item\<lparr>id := v\<rparr>"
| "assignField item (Set_product_id v) = item\<lparr>product_id := v\<rparr>"
| "assignField item (Set_product_name v) = item\<lparr>product_name := v\<rparr>"
| "assignField item (Set_product_sku v) = item\<lparr>product_sku := v\<rparr>"
| "assignField item (Set_quantity_ordered v) = item\<lparr>quantity_ordered := v\<rparr>"
| "assignField item (Set_unit_price v) = item\<lparr>unit_price := v\<rparr>"
| "assignField item (Set_supplier_sku v) = item\<lparr>supplier_sku := Some v\<rparr>"
| "assignField item (Set_total_price v) = item\<lparr>total_price := v\<rparr>"

fun recalculates :: "OrderItemUpdate \<Rightarrow> bool" where
  "recalculates (Set_quantity_ordered v) = True"
| "recalculates (Set_unit_price v) = True"
| "recalculates u = False"

definition updateOrderItem :: "string \<Rightarrow> OrderItemUpdate \<Rightarrow> OrderItem list \<Rightarrow> OrderItem list" where
  "updateOrderItem itemId upd orderItems =
     map (\<lambda>item.
            if OrderItem.id item = itemId then
              (let updatedItem = assignField item upd
               in if recalculates upd
                  then updatedItem\<lparr>total_price :=
                         of_int (quantity_ordered updatedItem) * unit_price updatedItem\<rparr>
                  else updatedItem)
            else item)
         orderItems"

definition removeOrderItem :: "string \<Rightarrow> OrderItem list \<Rightarrow> OrderItem list" where
  "removeOrderItem itemId orderItems = filter (\<lambda>item. OrderItem.id item \<noteq> itemId) orderItems"




text \<open>The events the modal's controls can raise on the line items. The quantity and
  price inputs call \<open>updateOrderItem\<close> with \<open>parseInt(...) || 1\<close> and
  \<open>parseFloat(...) || 0\<close>; \<open>None\<close> stands for \<open>NaN\<close>.\<close>

definition orElse :: "'a::zero option \<Rightarrow> 'a \<Rightarrow> 'a" where
  "orElse v d = (case v of None \<Rightarrow> d | Some x \<Rightarrow> if x = 0 then d else x)"

datatype ModalEvent =
    ClickProduct nat Product
  | QuantityInput string "int option"
  | UnitPriceInput string "rat option"
  | ClickRemove string
  | ResetForm

fun modalStep :: "OrderItem list \<Rightarrow> ModalEvent \<Rightarrow> OrderItem list" where
  "modalStep items (ClickProduct now p) = addProduct now p items"
| "modalStep items (QuantityInput itemId v) =
     updateOrderItem itemId (Set_quantity_ordered (orElse v 1)) items"
| "modalStep items (UnitPriceInput itemId v) =
     updateOrderItem itemId (Set_unit_price (orElse v 0)) items"
| "modalStep items (ClickRemove itemId) = removeOrderItem itemId items"
| "modalStep items ResetForm = []"

definition draftAfter :: "ModalEvent list \<Rightarrow> OrderItem list" where
  "draftAfter events = foldl modalStep [] events"

text \<open>A line item whose stored total is the product of its quantity and unit price.\<close>

definition priced :: "OrderItem \<Rightarrow> bool" where
  "priced item \<longleftrightarrow> total_price item = of_int (quantity_ordered item) * unit_price item"

section \<open>Inventory page: the mock fallback list\<close>

text \<open>\<open>getMockProducts()\<close> of the inventory page; properties the literal leaves out
  are \<open>None\<close>.\<close>

definition mockProduct ::
  "string \<Rightarrow> string \<Rightarrow> string \<Rightarrow> string \<Rightarrow> int \<Rightarrow> int \<Rightarrow> rat \<Rightarrow> rat \<Rightarrow> string \<Rightarrow> string \<Rightarrow>
   StockStatus \<Rightarrow> string \<Rightarrow> string \<Rightarrow> int \<Rightarrow> bool \<Rightarrow> bool \<Rightarrow> Product" where
  "mockProduct i n s c q mn sp cp a sh st ex u d lo out =
     \<lparr> Product.id = i, name = n, description = None, sku = s, barcode = None, category = c,
       subcategory = None, brand = None, cost_price = cp, selling_price = sp,
       quantity_in_stock = q, min_stock_threshold = mn, max_stock_threshold = None,
       aisle = Some a, shelf = Some sh, bin_location = None, warehouse_id = None,
       unit_of_measure = u, weight = None, dimensions = None, is_perishable = True,
       expiry_date = Some ex, days_until_expiry_warning = d, supplier_id = None,
       Product.supplier_sku = None, is_active = True, created_at = ''2024-01-01T00:00:00Z'',
       updated_at = ''2024-01-01T00:00:00Z'', created_by = None, stock_status = st,
       is_low_stock = lo, is_out_of_stock = out \<rparr>"

definition getMockProducts :: "Product list" where
  "getMockProducts =
     [mockProduct ''1'' ''Whole Milk 1L'' ''MILK-001'' ''Dairy'' 45 20 1.29 0.89 ''A1'' ''S3''
        NORMAL ''2024-12-15'' ''liters'' 7 False False,
      mockProduct ''2'' ''Bread White Sliced'' ''BREAD-001'' ''Bakery'' 8 15 2.50 1.20 ''B2'' ''S1''
        LOW_STOCK ''2024-11-20'' ''pieces'' 3 True False,
      mockProduct ''3'' ''Bananas'' ''FRUIT-001'' ''Produce'' 0 10 0.99 0.45 ''C1'' ''S2''
        OUT_OF_STOCK ''2024-11-18'' ''kg'' 2 False True]"


section \<open>Inventory page: the product list it shows\<close>

text \<open>The handlers of the inventory page, as functions of the page's \<open>products\<close> state.
  An \<open>option\<close> argument is the outcome of the awaited service call: \<open>Some\<close> its result,
  \<open>None\<close> when it threw (the handler then only reports the error, except that
  \<open>loadProducts\<close> falls back to the mock list). The status badge of a row shows the
  row's \<open>stock_status\<close>.\<close>

definition loadProducts :: "Product list option \<Rightarrow> Product list" where
  "loadProducts response =
     (case response of Some products \<Rightarrow> products | None \<Rightarrow> getMockProducts)"

definition handleAddProduct :: "Product option \<Rightarrow> Product list \<Rightarrow> Product list" where
  "handleAddProduct response prev =
     (case response of Some newProduct \<Rightarrow> newProduct # prev | None \<Rightarrow> prev)"

definition handleEditProduct :: "string \<Rightarrow> Product option \<Rightarrow> Product list \<Rightarrow> Product list" where
  "handleEditProduct productId response prev =
     (case response of
        Some updatedProduct \<Rightarrow>
          map (\<lambda>p. if Product.id p = productId then updatedProduct else p) prev
      | None \<Rightarrow> prev)"

definition handleDeleteProduct :: "string \<Rightarrow> bool \<Rightarrow> Product list \<Rightarrow> Product list" where
  "handleDeleteProduct productId succeeded prev =
     (if succeeded then filter (\<lambda>p. Product.id p \<noteq> productId) prev else prev)"

text \<open>The calls the page makes, each with the outcome of its request: the reply as the
  service returned it, or \<open>None\<close> when the request failed. The handlers store the
  products of a reply as they are.\<close>

datatype PageEvent =
    Load "Product list option"
  | Add "Product option"
  | Edit string "Product option"
  | Delete string bool

fun pageStep :: "Product list \<Rightarrow> PageEvent \<Rightarrow> Product list" where
  "pageStep products (Load response) = loadProducts response"
| "pageStep products (Add response) = handleAddProduct response products"
| "pageStep products (Edit productId response) = handleEditProduct productId response products"
| "pageStep products (Delete productId succeeded) =
     handleDeleteProduct productId succeeded products"

definition pageAfter :: "PageEvent list \<Rightarrow> Product list" where
  "pageAfter events = foldl pageStep [] events"

text \<open>The products that the replies of a run of events delivered.\<close>

fun deliveredBy :: "PageEvent \<Rightarrow> Product list" where
  "deliveredBy (Load (Some products)) = products"
| "deliveredBy (Add (Some newProduct)) = [newProduct]"
| "deliveredBy (Edit productId (Some updatedProduct)) = [updatedProduct]"
| "deliveredBy e = []"

definition delivered :: "PageEvent list \<Rightarrow> Product list" where
  "delivered events = concat (map deliveredBy events)"

text \<open>A reply row for the first mock product after its quantity went to 0, the status
  field still saying NORMAL; and an update reply in which that product has another
  SKU.\<close>

definition staleRow :: Product where
  "staleRow = (hd getMockProducts)\<lparr>quantity_in_stock := 0\<rparr>"

definition renamedRow :: Product where
  "renamedRow = (hd getMockProducts)\<lparr>Product.sku := ''NEW-1''\<rparr>"

section \<open>Form validation\<close>

text \<open>\<open>Record<string, string>\<close> for the error messages: an association list in
  insertion order; an assignment to an existing key replaces its value in place.\<close>

type_synonym Errors = "(string \<times> string) list"

fun assign :: "string \<Rightarrow> string \<Rightarrow> Errors \<Rightarrow> Errors" where
  "assign k v [] = [(k, v)]"
| "assign k v (p # ps) = (if fst p = k then (k, v) # ps else p # assign k v ps)"

text \<open>\<open>Object.keys(newErrors)\<close>, as a set.\<close>

definition keys :: "Errors \<Rightarrow> string set" where
  "keys newErrors = fst ` set newErrors"

text \<open>One statement \<open>if (cond) newErrors[key] = message\<close>, and a run of them in source
  order.\<close>

definition check :: "bool \<times> string \<times> string \<Rightarrow> Errors \<Rightarrow> Errors" where
  "check c newErrors = (case c of (cond, key, message) \<Rightarrow>
     if cond then assign key message newErrors else newErrors)"

definition runChecks :: "(bool \<times> string \<times> string) list \<Rightarrow> Errors" where
  "runChecks cs = fold check cs []"

text \<open>\<open>String.prototype.trim\<close>. A \<open>string\<close> holds the UTF-8 bytes of the JavaScript
  string. \<open>trim\<close> removes from both ends the code points of ECMAScript's WhiteSpace and
  LineTerminator productions: U+0009 to U+000D and U+0020 (one byte each), U+00A0 (two
  bytes), and U+1680, U+2000 to U+200A, U+2028, U+2029, U+202F, U+205F, U+3000 and
  U+FEFF (three bytes each).\<close>

definition ws1 :: "char \<Rightarrow> bool" where
  "ws1 c \<longleftrightarrow> c \<in> set [CHR 0x09, CHR 0x0A, CHR 0x0B, CHR 0x0C, CHR 0x0D, CHR 0x20]"

definition ws2 :: "char \<Rightarrow> char \<Rightarrow> bool" where
  "ws2 c1 c2 \<longleftrightarrow> c1 = CHR 0xC2 \<and> c2 = CHR 0xA0"

definition ws3 :: "char \<Rightarrow> char \<Rightarrow> char \<Rightarrow> bool" where
  "ws3 c1 c2 c3 \<longleftrightarrow>
     (c1 = CHR 0xE1 \<and> c2 = CHR 0x9A \<and> c3 = CHR 0x80) \<or>
     (c1 = CHR 0xE2 \<and> c2 = CHR 0x80 \<and>
        c3 \<in> set [CHR 0x80, CHR 0x81, CHR 0x82, CHR 0x83, CHR 0x84, CHR 0x85, CHR 0x86,
                   CHR 0x87, CHR 0x88, CHR 0x89, CHR 0x8A, CHR 0xA8, CHR 0xA9, CHR 0xAF]) \<or>
     (c1 = CHR 0xE2 \<and> c2 = CHR 0x81 \<and> c3 = CHR 0x9F) \<or>
     (c1 = CHR 0xE3 \<and> c2 = CHR 0x80 \<and> c3 = CHR 0x80) \<or>
     (c1 = CHR 0xEF \<and> c2 = CHR 0xBB \<and> c3 = CHR 0xBF)"

text \<open>Removal of leading white space; \<open>p2\<close> and \<open>p3\<close> recognise the two-byte and the
  three-byte code points in the order the bytes are met.\<close>

fun strip :: "(char \<Rightarrow> char \<Rightarrow> bool) \<Rightarrow> (char \<Rightarrow> char \<Rightarrow> char \<Rightarrow> bool) \<Rightarrow> string \<Rightarrow> string" where
  "strip p2 p3 (c1 # c2 # c3 # cs) =
     (if ws1 c1 then strip p2 p3 (c2 # c3 # cs)
      else if p2 c1 c2 then strip p2 p3 (c3 # cs)
      else if p3 c1 c2 c3 then strip p2 p3 cs
      else c1 # c2 # c3 # cs)"
| "strip p2 p3 [c1, c2] =
     (if ws1 c1 then strip p2 p3 [c2] else if p2 c1 c2 then [] else [c1, c2])"
| "strip p2 p3 [c1] = (if ws1 c1 then [] else [c1])"
| "strip p2 p3 [] = []"

definition trimStart :: "string \<Rightarrow> string" where
  "trimStart s = strip ws2 ws3 s"

text \<open>Trailing white space is leading white space of the reversed bytes, each code
  point's bytes then being met last byte first.\<close>

definition trimEnd :: "string \<Rightarrow> string" where
  "trimEnd s = rev (strip (\<lambda>a b. ws2 b a) (\<lambda>a b c. ws3 c b a) (rev s))"

definition trim :: "string \<Rightarrow> string" where
  "trim s = trimEnd (trimStart s)"

subsection \<open>AddProductModal\<close>

text \<open>The initial value of the form state (\<open>useState<ProductFormData>({...})\<close>).\<close>

definition initialFormData :: ProductFormData where
  "initialFormData =
     \<lparr> ProductCreateData.name = [],
       ProductCreateData.description = Some [],
       ProductCreateData.sku = [],
       ProductCreateData.barcode = Some [],
       ProductCreateData.category = [],
       ProductCreateData.subcategory = Some [],
       ProductCreateData.brand = Some [],
       ProductCreateData.cost_price = 0,
       ProductCreateData.selling_price = 0,
       ProductCreateData.quantity_in_stock = 0,
       ProductCreateData.min_stock_threshold = 10,
       ProductCreateData.max_stock_threshold = Some 1000,
       ProductCreateData.aisle = Some [],
       ProductCreateData.shelf = Some [],
       ProductCreateData.bin_location = Some [],
       ProductCreateData.warehouse_id = Some [],
       ProductCreateData.unit_of_measure = ''pieces'',
       ProductCreateData.weight = Some 0,
       ProductCreateData.dimensions = Some [],
       ProductCreateData.is_perishable = False,
       ProductCreateData.expiry_date = Some [],
       ProductCreateData.days_until_expiry_warning = 7,
       ProductCreateData.supplier_id = Some [],
       ProductCreateData.supplier_sku = Some [] \<rparr>"

text \<open>A filled-in form whose selling price equals its cost price; every other field
  passes its check.\<close>

definition equalPriceFormData :: ProductFormData where
  "equalPriceFormData =
     initialFormData
       \<lparr> ProductCreateData.name := ''Whole Milk 1L'',
         ProductCreateData.sku := ''MILK-001'',
         ProductCreateData.category := ''Dairy'',
         ProductCreateData.cost_price := 1,
         ProductCreateData.selling_price := 1 \<rparr>"

text \<open>A filled-in form that passes every check except that its maximum threshold, 0,
  is not above its minimum threshold, 10.\<close>

definition zeroMaxFormData :: ProductFormData where
  "zeroMaxFormData =
     equalPriceFormData
       \<lparr> ProductCreateData.selling_price := 2,
         ProductCreateData.max_stock_threshold := Some 0 \<rparr>"

text \<open>The untouched form with a negative minimum threshold and a maximum below it.\<close>

definition badThresholdFormData :: ProductFormData where
  "badThresholdFormData =
     initialFormData
       \<lparr> ProductCreateData.min_stock_threshold := - 1,
         ProductCreateData.max_stock_threshold := Some (- 5) \<rparr>"

definition checks_AddProductModal :: "ProductFormData \<Rightarrow> (bool \<times> string \<times> string) list" where
  "checks_AddProductModal formData =
     [(trim (ProductCreateData.name formData) = [], ''name'', ''Product name is required''),
      (trim (ProductCreateData.sku formData) = [], ''sku'', ''SKU is required''),
      (trim (ProductCreateData.category formData) = [], ''category'', ''Category is required''),
      (ProductCreateData.cost_price formData \<le> 0, ''cost_price'',
         ''Cost price must be greater than 0''),
      (ProductCreateData.selling_price formData \<le> 0, ''selling_price'',
         ''Selling price must be greater than 0''),
      (ProductCreateData.quantity_in_stock formData < 0, ''quantity_in_stock'',
         ''Stock quantity cannot be negative''),
      (ProductCreateData.min_stock_threshold formData < 0, ''min_stock_threshold'',
         ''Minimum threshold cannot be negative''),
      ((case ProductCreateData.max_stock_threshold formData of
          None \<Rightarrow> False
        | Some m \<Rightarrow> m \<noteq> 0 \<and> m \<le> ProductCreateData.min_stock_threshold formData),
         ''max_stock_threshold'', ''Maximum threshold must be greater than minimum threshold''),
      (ProductCreateData.selling_price formData \<le> ProductCreateData.cost_price formData,
         ''selling_price'', ''Selling price should be greater than cost price''),
      (ProductCreateData.is_perishable formData \<and>
         (case ProductCreateData.expiry_date formData of
            None \<Rightarrow> True
          | Some d \<Rightarrow> d = [] \<or> trim d = []),
         ''expiry_date'', ''Expiry date is required for perishable items'')]"

definition errors_AddProductModal :: "ProductFormData \<Rightarrow> Errors" where
  "errors_AddProductModal formData = runChecks (checks_AddProductModal formData)"

definition validateForm_AddProductModal :: "ProductFormData \<Rightarrow> bool" where
  "validateForm_AddProductModal formData \<longleftrightarrow> length (errors_AddProductModal formData) = 0"

text \<open>\<open>x || undefined\<close> on an optional string, \<open>x ? Number(x) : undefined\<close> on an
  optional number.\<close>

definition orUndefined :: "string option \<Rightarrow> string option" where
  "orUndefined x = (case x of None \<Rightarrow> None | Some s \<Rightarrow> if s = [] then None else Some s)"

definition numberOrUndefined :: "'a::zero option \<Rightarrow> 'a option" where
  "numberOrUndefined x = (case x of None \<Rightarrow> None | Some n \<Rightarrow> if n = 0 then None else Some n)"

text \<open>\<open>handleSubmit\<close>: \<open>None\<close> when it returns before \<open>onSave\<close>, otherwise the
  \<open>productData\<close> passed to \<open>onSave\<close>. \<open>toISOString d\<close> stands for
  \<open>new Date(d + 'T00:00:00').toISOString()\<close>, which depends on the browser's time zone
  and throws a \<open>RangeError\<close> (here \<open>None\<close>) when \<open>d\<close> is not a date; the \<open>catch\<close> of
  \<open>handleSubmit\<close> then logs the error and \<open>onSave\<close> is not called.\<close>

definition convertExpiry ::
  "(string \<Rightarrow> string option) \<Rightarrow> string option \<Rightarrow> string option option" where
  "convertExpiry toISOString expiry =
     (case expiry of
        None \<Rightarrow> Some None
      | Some d \<Rightarrow>
          if d \<noteq> [] \<and> trim d \<noteq> []
          then (case toISOString d of None \<Rightarrow> None | Some stamp \<Rightarrow> Some (Some stamp))
          else Some None)"

definition handleSubmit_AddProductModal ::
  "(string \<Rightarrow> string option) \<Rightarrow> ProductFormData \<Rightarrow> ProductCreateData option" where
  "handleSubmit_AddProductModal toISOString formData =
     (if \<not> validateForm_AddProductModal formData then None
      else case convertExpiry toISOString (ProductCreateData.expiry_date formData) of
        None \<Rightarrow> None
      | Some expiry \<Rightarrow> Some (formData
        \<lparr> ProductCreateData.max_stock_threshold :=
            numberOrUndefined (ProductCreateData.max_stock_threshold formData),
          ProductCreateData.weight := numberOrUndefined (ProductCreateData.weight formData),
          ProductCreateData.days_until_expiry_warning :=
            (if ProductCreateData.days_until_expiry_warning formData = 0 then 7
             else ProductCreateData.days_until_expiry_warning formData),
          ProductCreateData.description := orUndefined (ProductCreateData.description formData),
          ProductCreateData.barcode := orUndefined (ProductCreateData.barcode formData),
          ProductCreateData.subcategory := orUndefined (ProductCreateData.subcategory formData),
          ProductCreateData.brand := orUndefined (ProductCreateData.brand formData),
          ProductCreateData.aisle := orUndefined (ProductCreateData.aisle formData),
          ProductCreateData.shelf := orUndefined (ProductCreateData.shelf formData),
          ProductCreateData.bin_location := orUndefined (ProductCreateData.bin_location formData),
          ProductCreateData.warehouse_id := orUndefined (ProductCreateData.warehouse_id formData),
          ProductCreateData.dimensions := orUndefined (ProductCreateData.dimensions formData),
          ProductCreateData.supplier_id := orUndefined (ProductCreateData.supplier_id formData),
          ProductCreateData.supplier_sku := orUndefined (ProductCreateData.supplier_sku formData),
          ProductCreateData.expiry_date := expiry \<rparr>))"

subsection \<open>EditProductModal\<close>

text \<open>\<open>x || d\<close> on an optional number or string.\<close>

definition orNum :: "'a::zero option \<Rightarrow> 'a \<Rightarrow> 'a" where
  "orNum x d = (case x of None \<Rightarrow> d | Some n \<Rightarrow> if n = 0 then d else n)"

definition orEmpty :: "string option \<Rightarrow> string" where
  "orEmpty x = (case x of None \<Rightarrow> [] | Some s \<Rightarrow> s)"

text \<open>The initial state of the edit form, \<open>useState<Partial<Product>>({})\<close>: the empty
  object.\<close>

definition emptyPartial :: PartialProduct where
  "emptyPartial =
     \<lparr> PartialProduct.id = None,
       PartialProduct.name = None,
       PartialProduct.description = None,
       PartialProduct.sku = None,
       PartialProduct.barcode = None,
       PartialProduct.category = None,
       PartialProduct.subcategory = None,
       PartialProduct.brand = None,
       PartialProduct.cost_price = None,
       PartialProduct.selling_price = None,
       PartialProduct.quantity_in_stock = None,
       PartialProduct.min_stock_threshold = None,
       PartialProduct.max_stock_threshold = None,
       PartialProduct.aisle = None,
       PartialProduct.shelf = None,
       PartialProduct.bin_location = None,
       PartialProduct.warehouse_id = None,
       PartialProduct.unit_of_measure = None,
       PartialProduct.weight = None,
       PartialProduct.dimensions = None,
       PartialProduct.is_perishable = None,
       PartialProduct.expiry_date = None,
       PartialProduct.days_until_expiry_warning = None,
       PartialProduct.supplier_id = None,
       PartialProduct.supplier_sku = None,
       PartialProduct.is_active = None,
       PartialProduct.created_at = None,
       PartialProduct.updated_at = None,
       PartialProduct.created_by = None,
       PartialProduct.stock_status = None,
       PartialProduct.is_low_stock = None,
       PartialProduct.is_out_of_stock = None \<rparr>"

text \<open>The \<open>useEffect\<close> that pre-populates the form from the product being edited.\<close>

definition populate :: "Product \<Rightarrow> PartialProduct" where
  "populate product =
     \<lparr> PartialProduct.id = None,
       PartialProduct.name = Some (Product.name product),
       PartialProduct.description = Some (orEmpty (Product.description product)),
       PartialProduct.sku = Some (Product.sku product),
       PartialProduct.barcode = Some (orEmpty (Product.barcode product)),
       PartialProduct.category = Some (Product.category product),
       PartialProduct.subcategory = Some (orEmpty (Product.subcategory product)),
       PartialProduct.brand = Some (orEmpty (Product.brand product)),
       PartialProduct.cost_price = Some (Product.cost_price product),
       PartialProduct.selling_price = Some (Product.selling_price product),
       PartialProduct.quantity_in_stock = None,
       PartialProduct.min_stock_threshold =
         Some (orNum (Some (Product.min_stock_threshold product)) 10),
       PartialProduct.max_stock_threshold =
         Some (orNum (Product.max_stock_threshold product) 1000),
       PartialProduct.aisle = Some (orEmpty (Product.aisle product)),
       PartialProduct.shelf = Some (orEmpty (Product.shelf product)),
       PartialProduct.bin_location = Some (orEmpty (Product.bin_location product)),
       PartialProduct.warehouse_id = Some (orEmpty (Product.warehouse_id product)),
       PartialProduct.unit_of_measure =
         Some (if Product.unit_of_measure product = [] then ''pieces''
               else Product.unit_of_measure product),
       PartialProduct.weight = Some (orNum (Product.weight product) 0),
       PartialProduct.dimensions = Some (orEmpty (Product.dimensions product)),
       PartialProduct.is_perishable = Some (Product.is_perishable product),
       PartialProduct.expiry_date =
         Some (takeWhile (\<lambda>c. c \<noteq> CHR ''T'') (orEmpty (Product.expiry_date product))),
       PartialProduct.days_until_expiry_warning =
         Some (orNum (Some (Product.days_until_expiry_warning product)) 7),
       PartialProduct.supplier_id = Some (orEmpty (Product.supplier_id product)),
       PartialProduct.supplier_sku = Some (orEmpty (Product.supplier_sku product)),
       PartialProduct.is_active = None,
       PartialProduct.created_at = None,
       PartialProduct.updated_at = None,
       PartialProduct.created_by = None,
       PartialProduct.stock_status = None,
       PartialProduct.is_low_stock = None,
       PartialProduct.is_out_of_stock = None \<rparr>"

text \<open>\<open>handleInputChange(field, value)\<close>: \<open>{...prev, [field]: value}\<close>. A constructor of
  \<open>ProductFieldValue\<close> is a key of \<open>Product\<close> with a value of that property's type.
  (The function also clears the field's error message, which no payload depends on.)\<close>

datatype ProductFieldValue =
    V_id string
  | V_name string
  | V_description string
  | V_sku string
  | V_barcode string
  | V_category string
  | V_subcategory string
  | V_brand string
  | V_cost_price rat
  | V_selling_price rat
  | V_quantity_in_stock int
  | V_min_stock_threshold int
  | V_max_stock_threshold int
  | V_aisle string
  | V_shelf string
  | V_bin_location string
  | V_warehouse_id string
  | V_unit_of_measure string
  | V_weight rat
  | V_dimensions string
  | V_is_perishable bool
  | V_expiry_date string
  | V_days_until_expiry_warning int
  | V_supplier_id string
  | V_supplier_sku string
  | V_is_active bool
  | V_created_at string
  | V_updated_at string
  | V_created_by string
  | V_stock_status StockStatus
  | V_is_low_stock bool
  | V_is_out_of_stock bool

fun handleInputChange_EditProductModal :: "ProductFieldValue \<Rightarrow> PartialProduct \<Rightarrow> PartialProduct" where
  "handleInputChange_EditProductModal (V_id v) prev = prev\<lparr>PartialProduct.id := Some v\<rparr>"
| "handleInputChange_EditProductModal (V_name v) prev = prev\<lparr>PartialProduct.name := Some v\<rparr>"
| "handleInputChange_EditProductModal (V_description v) prev = prev\<lparr>PartialProduct.description := Some v\<rparr>"
| "handleInputChange_EditProductModal (V_sku v) prev = prev\<lparr>PartialProduct.sku := Some v\<rparr>"
| "handleInputChange_EditProductModal (V_barcode v) prev = prev\<lparr>PartialProduct.barcode := Some v\<rparr>"
| "handleInputChange_EditProductModal (V_category v) prev = prev\<lparr>PartialProduct.category := Some v\<rparr>"
| "handleInputChange_EditProductModal (V_subcategory v) prev = prev\<lparr>PartialProduct.subcategory := Some v\<rparr>"
| "handleInputChange_EditProductModal (V_brand v) prev = prev\<lparr>PartialProduct.brand := Some v\<rparr>"
| "handleInputChange_EditProductModal (V_cost_price v) prev = prev\<lparr>PartialProduct.cost_price := Some v\<rparr>"
| "handleInputChange_EditProductModal (V_selling_price v) prev = prev\<lparr>PartialProduct.selling_price := Some v\<rparr>"
| "handleInputChange_EditProductModal (V_quantity_in_stock v) prev = prev\<lparr>PartialProduct.quantity_in_stock := Some v\<rparr>"
| "handleInputChange_EditProductModal (V_min_stock_threshold v) prev = prev\<lparr>PartialProduct.min_stock_threshold := Some v\<rparr>"
| "handleInputChange_EditProductModal (V_max_stock_threshold v) prev = prev\<lparr>PartialProduct.max_stock_threshold := Some v\<rparr>"
| "handleInputChange_EditProductModal (V_aisle v) prev = prev\<lparr>PartialProduct.aisle := Some v\<rparr>"
| "handleInputChange_EditProductModal (V_shelf v) prev = prev\<lparr>PartialProduct.shelf := Some v\<rparr>"
| "handleInputChange_EditProductModal (V_bin_location v) prev = prev\<lparr>PartialProduct.bin_location := Some v\<rparr>"
| "handleInputChange_EditProductModal (V_warehouse_id v) prev = prev\<lparr>PartialProduct.warehouse_id := Some v\<rparr>"
| "handleInputChange_EditProductModal (V_unit_of_measure v) prev = prev\<lparr>PartialProduct.unit_of_measure := Some v\<rparr>"
| "handleInputChange_EditProductModal (V_weight v) prev = prev\<lparr>PartialProduct.weight := Some v\<rparr>"
| "handleInputChange_EditProductModal (V_dimensions v) prev = prev\<lparr>PartialProduct.dimensions := Some v\<rparr>"
| "handleInputChange_EditProductModal (V_is_perishable v) prev = prev\<lparr>PartialProduct.is_perishable := Some v\<rparr>"
| "handleInputChange_EditProductModal (V_expiry_date v) prev = prev\<lparr>PartialProduct.expiry_date := Some v\<rparr>"
| "handleInputChange_EditProductModal (V_days_until_expiry_warning v) prev = prev\<lparr>PartialProduct.days_until_expiry_warning := Some v\<rparr>"
| "handleInputChange_EditProductModal (V_supplier_id v) prev = prev\<lparr>PartialProduct.supplier_id := Some v\<rparr>"
| "handleInputChange_EditProductModal (V_supplier_sku v) prev = prev\<lparr>PartialProduct.supplier_sku := Some v\<rparr>"
| "handleInputChange_EditProductModal (V_is_active v) prev = prev\<lparr>PartialProduct.is_active := Some v\<rparr>"
| "handleInputChange_EditProductModal (V_created_at v) prev = prev\<lparr>PartialProduct.created_at := Some v\<rparr>"
| "handleInputChange_EditProductModal (V_updated_at v) prev = prev\<lparr>PartialProduct.updated_at := Some v\<rparr>"
| "handleInputChange_EditProductModal (V_created_by v) prev = prev\<lparr>PartialProduct.created_by := Some v\<rparr>"
| "handleInputChange_EditProductModal (V_stock_status v) prev = prev\<lparr>PartialProduct.stock_status := Some v\<rparr>"
| "handleInputChange_EditProductModal (V_is_low_stock v) prev = prev\<lparr>PartialProduct.is_low_stock := Some v\<rparr>"
| "handleInputChange_EditProductModal (V_is_out_of_stock v) prev = prev\<lparr>PartialProduct.is_out_of_stock := Some v\<rparr>"

text \<open>The controls of the edit form and the call each \<open>onChange\<close> makes. The SKU input
  is rendered \<open>disabled\<close> and has no \<open>onChange\<close>. \<open>None\<close> is \<open>NaN\<close> from
  \<open>parseFloat\<close>/\<open>parseInt\<close>.\<close>

datatype EditControl =
    NameInput string
  | BarcodeInput string
  | CategorySelect string
  | BrandInput string
  | UnitSelect string
  | CostPriceInput "rat option"
  | SellingPriceInput "rat option"
  | MinThresholdInput "int option"
  | MaxThresholdInput "int option"
  | AisleInput string
  | ShelfInput string
  | BinLocationInput string
  | PerishableCheckbox bool
  | ExpiryDateInput string
  | WarningDaysInput "int option"
  | DescriptionInput string

fun onChange :: "EditControl \<Rightarrow> ProductFieldValue" where
  "onChange (NameInput v) = V_name v"
| "onChange (BarcodeInput v) = V_barcode v"
| "onChange (CategorySelect v) = V_category v"
| "onChange (BrandInput v) = V_brand v"
| "onChange (UnitSelect v) = V_unit_of_measure v"
| "onChange (CostPriceInput v) = V_cost_price (orNum v 0)"
| "onChange (SellingPriceInput v) = V_selling_price (orNum v 0)"
| "onChange (MinThresholdInput v) = V_min_stock_threshold (orNum v 0)"
| "onChange (MaxThresholdInput v) = V_max_stock_threshold (orNum v 0)"
| "onChange (AisleInput v) = V_aisle v"
| "onChange (ShelfInput v) = V_shelf v"
| "onChange (BinLocationInput v) = V_bin_location v"
| "onChange (PerishableCheckbox v) = V_is_perishable v"
| "onChange (ExpiryDateInput v) = V_expiry_date v"
| "onChange (WarningDaysInput v) = V_days_until_expiry_warning (orNum v 7)"
| "onChange (DescriptionInput v) = V_description v"

definition editFormAfter :: "Product \<Rightarrow> EditControl list \<Rightarrow> PartialProduct" where
  "editFormAfter product controls =
     foldl (\<lambda>formData c. handleInputChange_EditProductModal (onChange c) formData)
           (populate product) controls"

text \<open>\<open>!formData.name?.trim()\<close> on an optional string.\<close>

definition blank :: "string option \<Rightarrow> bool" where
  "blank x \<longleftrightarrow> (case x of None \<Rightarrow> True | Some s \<Rightarrow> trim s = [])"

definition checks_EditProductModal :: "PartialProduct \<Rightarrow> (bool \<times> string \<times> string) list" where
  "checks_EditProductModal formData =
     [(blank (PartialProduct.name formData), ''name'', ''Product name is required''),
      (blank (PartialProduct.sku formData), ''sku'', ''SKU is required''),
      (blank (PartialProduct.category formData), ''category'', ''Category is required''),
      (orNum (PartialProduct.cost_price formData) 0 \<le> 0, ''cost_price'',
         ''Cost price must be greater than 0''),
      (orNum (PartialProduct.selling_price formData) 0 \<le> 0, ''selling_price'',
         ''Selling price must be greater than 0''),
      (orNum (PartialProduct.min_stock_threshold formData) 0 < 0, ''min_stock_threshold'',
         ''Minimum threshold cannot be negative''),
      (orNum (PartialProduct.max_stock_threshold formData) 0
         \<le> orNum (PartialProduct.min_stock_threshold formData) 0,
         ''max_stock_threshold'', ''Maximum threshold must be greater than minimum threshold''),
      (orNum (PartialProduct.selling_price formData) 0
         \<le> orNum (PartialProduct.cost_price formData) 0,
         ''selling_price'', ''Selling price should be greater than cost price''),
      (PartialProduct.is_perishable formData = Some True \<and>
         orEmpty (PartialProduct.expiry_date formData) = [],
         ''expiry_date'', ''Expiry date is required for perishable items'')]"

definition errors_EditProductModal :: "PartialProduct \<Rightarrow> Errors" where
  "errors_EditProductModal formData = runChecks (checks_EditProductModal formData)"

definition validateForm_EditProductModal :: "PartialProduct \<Rightarrow> bool" where
  "validateForm_EditProductModal formData \<longleftrightarrow> length (errors_EditProductModal formData) = 0"

text \<open>\<open>handleSubmit\<close> of the edit form: \<open>None\<close> when it returns before \<open>onSave\<close>,
  otherwise the arguments \<open>(product.id, updatedData)\<close> of \<open>onSave\<close>.\<close>

definition handleSubmit_EditProductModal ::
  "(string \<Rightarrow> string option) \<Rightarrow> Product option \<Rightarrow> PartialProduct \<Rightarrow>
     (string \<times> PartialProduct) option" where
  "handleSubmit_EditProductModal toISOString product formData =
     (case product of
        None \<Rightarrow> None
      | Some p \<Rightarrow>
          if \<not> validateForm_EditProductModal formData then None
          else case convertExpiry toISOString (PartialProduct.expiry_date formData) of
            None \<Rightarrow> None
          | Some expiry \<Rightarrow> Some (Product.id p, formData
            \<lparr> PartialProduct.expiry_date := expiry,
              PartialProduct.description := orUndefined (PartialProduct.description formData),
              PartialProduct.barcode := orUndefined (PartialProduct.barcode formData),
              PartialProduct.subcategory := orUndefined (PartialProduct.subcategory formData),
              PartialProduct.brand := orUndefined (PartialProduct.brand formData),
              PartialProduct.aisle := orUndefined (PartialProduct.aisle formData),
              PartialProduct.shelf := orUndefined (PartialProduct.shelf formData),
              PartialProduct.bin_location := orUndefined (PartialProduct.bin_location formData),
              PartialProduct.warehouse_id := orUndefined (PartialProduct.warehouse_id formData),
              PartialProduct.dimensions := orUndefined (PartialProduct.dimensions formData),
              PartialProduct.supplier_id := orUndefined (PartialProduct.supplier_id formData),
              PartialProduct.supplier_sku := orUndefined (PartialProduct.supplier_sku formData) \<rparr>))"

text \<open>\<open>ProductService.updateProduct(id, updates)\<close>: the request handed to \<open>apiRequest\<close>.
  \<open>JSON.stringify\<close> leaves out the properties that are \<open>undefined\<close> and keeps all
  others, so the body is the payload itself.\<close>

record ApiCall =
  http_method :: string
  endpoint :: string
  body :: PartialProduct

definition updateProduct :: "string \<Rightarrow> PartialProduct \<Rightarrow> ApiCall" where
  "updateProduct ident updates =
     \<lparr> http_method = ''PUT'', endpoint = ''/api/products/'' @ ident, body = updates \<rparr>"

subsection \<open>CreatePurchaseOrderModal\<close>

text \<open>The form state of the modal that \<open>validateForm\<close> reads.\<close>

record PurchaseOrderForm =
  selectedSupplierId :: string
  expectedDeliveryDate :: string
  orderItems :: "OrderItem list"

text \<open>The initial values of those state variables.\<close>

definition initialPurchaseOrderForm :: PurchaseOrderForm where
  "initialPurchaseOrderForm =
     \<lparr> selectedSupplierId = [], expectedDeliveryDate = [], orderItems = [] \<rparr>"

text \<open>The untouched form after one product was added, \<open>-2\<close> typed as its quantity and
  its price field cleared.\<close>

definition badItemForm :: PurchaseOrderForm where
  "badItemForm =
     initialPurchaseOrderForm
       \<lparr> orderItems :=
           draftAfter [ClickProduct 5 (hd getMockProducts), QuantityInput ''5'' (Some (- 2)),
                       UnitPriceInput ''5'' None] \<rparr>"

definition itemChecks :: "nat \<Rightarrow> OrderItem \<Rightarrow> (bool \<times> string \<times> string) list" where
  "itemChecks index item =
     [(quantity_ordered item \<le> 0, ''item_'' @ toString index @ ''_quantity'',
         ''Quantity must be greater than 0''),
      (unit_price item \<le> 0, ''item_'' @ toString index @ ''_price'',
         ''Unit price must be greater than 0'')]"

definition checks_CreatePurchaseOrderModal ::
  "PurchaseOrderForm \<Rightarrow> (bool \<times> string \<times> string) list" where
  "checks_CreatePurchaseOrderModal form =
     [(selectedSupplierId form = [], ''supplier'', ''Please select a supplier''),
      (length (orderItems form) = 0, ''items'', ''Please add at least one product''),
      (expectedDeliveryDate form = [], ''deliveryDate'', ''Please set expected delivery date'')]
     @ concat (map (\<lambda>(index, item). itemChecks index item)
                   (zip [0..<length (orderItems form)] (orderItems form)))"

definition errors_CreatePurchaseOrderModal :: "PurchaseOrderForm \<Rightarrow> Errors" where
  "errors_CreatePurchaseOrderModal form = runChecks (checks_CreatePurchaseOrderModal form)"

definition validateForm_CreatePurchaseOrderModal :: "PurchaseOrderForm \<Rightarrow> bool" where
  "validateForm_CreatePurchaseOrderModal form \<longleftrightarrow>
     length (errors_CreatePurchaseOrderModal form) = 0"

section \<open>List requests and replies as the client handles them\<close>



































section \<open>The backend core, modelled from the specification\<close>

text \<open>The backend (FastAPI routes and services) is not among the sources; the client
  code only calls it. What the proofs need of it is modelled from the specification's
  contracts.\<close>

text \<open>The error taxonomy of the specification (section 7).\<close>

datatype CoreError =
    ValidationError "string list"
  | NotFoundError
  | ImmutableFieldError
  | InvalidQuantityError
  | InvalidStateTransitionError
  | OverReceiptError

text \<open>Modelled from the spec: the Product Record Store, which is backend code absent from
  the sources. Products are looked up by id.\<close>

type_synonym ProductStore = "string \<rightharpoonup> Product"

text \<open>Modelled from the spec: \<open>computeStockStatus(product)\<close>, backend code absent from the
  sources: "if quantity == 0 -> OUT_OF_STOCK; else if quantity < min_threshold ->
  LOW_STOCK; else if max_threshold is set and quantity > max_threshold -> OVERSTOCK;
  else NORMAL".\<close>

definition computeStockStatus :: "int \<Rightarrow> int \<Rightarrow> int option \<Rightarrow> StockStatus" where
  "computeStockStatus quantity min_threshold max_threshold =
     (if quantity = 0 then OUT_OF_STOCK
      else if quantity < min_threshold then LOW_STOCK
      else (case max_threshold of
              Some m \<Rightarrow> if quantity > m then OVERSTOCK else NORMAL
            | None \<Rightarrow> NORMAL))"

text \<open>A row is shown consistently when its status is the function of its quantity and
  thresholds.\<close>

definition statusConsistent :: "Product \<Rightarrow> bool" where
  "statusConsistent p \<longleftrightarrow>
     stock_status p =
       computeStockStatus (quantity_in_stock p) (min_stock_threshold p) (max_stock_threshold p)"

subsection \<open>Stock Adjustment Log\<close>

text \<open>Modelled from the spec: the Stock Adjustment Entry and the reason codes, backend
  code absent from the sources.\<close>

datatype ReasonCode = RESTOCK | SALE | DAMAGE | CORRECTION | RETURN | RECEIVING

record StockAdjustmentEntry =
  entry_product_id :: string
  old_quantity :: int
  new_quantity :: int
  reason :: ReasonCode
  entry_notes :: "string option"
  actor :: string
  timestamp :: nat

record Ledger =
  productRows :: ProductStore
  adjustments :: "StockAdjustmentEntry list"

text \<open>Modelled from the spec: \<open>adjustStock(id, newQuantity, reason, notes?)\<close>, backend code
  absent from the sources (the client's \<open>ProductService.adjustStock\<close> only sends the
  request): "computes delta = newQuantity - currentQuantity; writes one Stock Adjustment
  Entry; updates quantity_in_stock; newQuantity must be >= 0, else fails with
  InvalidQuantityError". The actor and the time of the call are arguments.\<close>

record AdjustStockCommand =
  target :: string
  newQuantity :: int
  cmd_reason :: ReasonCode
  cmd_notes :: "string option"
  cmd_actor :: string
  cmd_time :: nat

definition adjustStock :: "Ledger \<Rightarrow> AdjustStockCommand \<Rightarrow> CoreError + Ledger" where
  "adjustStock L c =
     (case productRows L (target c) of
        None \<Rightarrow> Inl NotFoundError
      | Some p \<Rightarrow>
          if newQuantity c < 0 then Inl InvalidQuantityError
          else Inr (L\<lparr> productRows := (productRows L)(target c \<mapsto> p\<lparr>quantity_in_stock := newQuantity c\<rparr>),
                       adjustments := adjustments L @
                         [\<lparr> entry_product_id = target c,
                            old_quantity = quantity_in_stock p,
                            new_quantity = newQuantity c,
                            reason = cmd_reason c,
                            entry_notes = cmd_notes c,
                            actor = cmd_actor c,
                            timestamp = cmd_time c \<rparr>] \<rparr>))"

text \<open>A sequence of calls: a call that fails is reported to its caller and leaves the
  ledger as it was.\<close>

definition attempt :: "Ledger \<Rightarrow> AdjustStockCommand \<Rightarrow> Ledger" where
  "attempt L c = (case adjustStock L c of Inl e \<Rightarrow> L | Inr L' \<Rightarrow> L')"

text \<open>A ledger holding the first mock product with an empty log, and a correction of
  one product's quantity to a given value.\<close>

definition sampleLedger :: Ledger where
  "sampleLedger = \<lparr> productRows = [''1'' \<mapsto> hd getMockProducts], adjustments = [] \<rparr>"

definition adjustTo :: "string \<Rightarrow> int \<Rightarrow> AdjustStockCommand" where
  "adjustTo ident n =
     \<lparr> target = ident, newQuantity = n, cmd_reason = CORRECTION, cmd_notes = None,
       cmd_actor = ''clerk'', cmd_time = 0 \<rparr>"

definition delta :: "StockAdjustmentEntry \<Rightarrow> int" where
  "delta e = new_quantity e - old_quantity e"

text \<open>The entries of a log for one product, and their replay from an initial quantity.\<close>

definition entriesFor :: "string \<Rightarrow> StockAdjustmentEntry list \<Rightarrow> StockAdjustmentEntry list" where
  "entriesFor ident entries = filter (\<lambda>e. entry_product_id e = ident) entries"

definition replay :: "int \<Rightarrow> StockAdjustmentEntry list \<Rightarrow> int" where
  "replay initial entries = foldl (\<lambda>q e. q + delta e) initial entries"

definition quantityOf :: "Ledger \<Rightarrow> string \<Rightarrow> int option" where
  "quantityOf L ident = map_option quantity_in_stock (productRows L ident)"

subsection \<open>Receiving\<close>

datatype OrderStatus = DRAFT | PENDING | APPROVED | ORDERED | SHIPPED | DELIVERED | CANCELLED

text \<open>Modelled from the spec: the Purchase Order Aggregate as far as receiving reads and
  writes it, and the state the Receiving Processor works on. Backend code absent from
  the sources.\<close>

record OrderAggregate =
  po_status :: OrderStatus
  po_items :: "PurchaseOrderItem list"
  po_actual_delivery_date :: "string option"

record CoreState =
  ledger :: Ledger
  purchaseOrder :: OrderAggregate

text \<open>An optional value of a batch element replaces the stored one when it is given.\<close>

definition keepOpt :: "'a option \<Rightarrow> 'a option \<Rightarrow> 'a option" where
  "keepOpt new old = (case new of None \<Rightarrow> old | Some v \<Rightarrow> Some v)"

definition receivedSoFar :: "PurchaseOrderItem \<Rightarrow> int" where
  "receivedSoFar li = (case PurchaseOrderItem.quantity_received li of None \<Rightarrow> 0 | Some n \<Rightarrow> n)"

text \<open>Modelled from the spec: receipt of one batch element by a line item: "increments
  quantity_received, sets is_received when received==ordered, optionally records
  quality_notes".\<close>

definition receiveLine :: "ReceiveItem \<Rightarrow> PurchaseOrderItem \<Rightarrow> PurchaseOrderItem" where
  "receiveLine r li =
     li\<lparr> PurchaseOrderItem.quantity_received :=
            Some (receivedSoFar li + ReceiveItem.quantity_received r),
          PurchaseOrderItem.is_received :=
            Some (receivedSoFar li + ReceiveItem.quantity_received r
                    = PurchaseOrderItem.quantity_ordered li),
          PurchaseOrderItem.quality_notes :=
            keepOpt (ReceiveItem.quality_notes r) (PurchaseOrderItem.quality_notes li) \<rparr>"

text \<open>Modelled from the spec: validation of the full batch "against current line-item
  state before applying any mutation": the batch is run on a working copy of the line
  items; an element that references no line item of the order fails with
  \<open>NotFoundError\<close>, one that would take the cumulative received quantity above the
  ordered quantity fails with \<open>OverReceiptError\<close>.\<close>

fun receiveInto :: "PurchaseOrderItem list \<Rightarrow> ReceiveItem list \<Rightarrow> CoreError + PurchaseOrderItem list" where
  "receiveInto lines [] = Inr lines"
| "receiveInto lines (r # rs) =
     (case findIndex (\<lambda>li. PurchaseOrderItem.id li = Some (item_id r)) lines of
        None \<Rightarrow> Inl NotFoundError
      | Some i \<Rightarrow>
          if receivedSoFar (lines ! i) + ReceiveItem.quantity_received r
               > PurchaseOrderItem.quantity_ordered (lines ! i)
          then Inl OverReceiptError
          else receiveInto (lines[i := receiveLine r (lines ! i)]) rs)"

text \<open>Modelled from the spec: the stock side of a receipt: one Stock Adjustment Entry
  with reason \<open>RECEIVING\<close> per batch element, on the product of the referenced line.\<close>

fun receiveStock ::
  "string \<Rightarrow> nat \<Rightarrow> PurchaseOrderItem list \<Rightarrow> Ledger \<Rightarrow> ReceiveItem list \<Rightarrow> Ledger" where
  "receiveStock who now lines L [] = L"
| "receiveStock who now lines L (r # rs) =
     (case findIndex (\<lambda>li. PurchaseOrderItem.id li = Some (item_id r)) lines of
        None \<Rightarrow> receiveStock who now lines L rs
      | Some i \<Rightarrow>
          (case productRows L (PurchaseOrderItem.product_id (lines ! i)) of
             None \<Rightarrow> receiveStock who now lines L rs
           | Some p \<Rightarrow>
               receiveStock who now lines
                 (L\<lparr> productRows := (productRows L)(Product.id p \<mapsto>
                        p\<lparr>quantity_in_stock :=
                             quantity_in_stock p + ReceiveItem.quantity_received r\<rparr>),
                      adjustments := adjustments L @
                        [\<lparr> entry_product_id = Product.id p,
                           old_quantity = quantity_in_stock p,
                           new_quantity = quantity_in_stock p + ReceiveItem.quantity_received r,
                           reason = RECEIVING,
                           entry_notes = ReceiveItem.quality_notes r,
                           actor = who,
                           timestamp = now \<rparr>] \<rparr>)
                 rs))"

text \<open>Modelled from the spec: the \<open>receive(items)\<close> transition. The result pairs the
  outcome reported to the caller with the state after the call. \<open>today\<close> is the date
  stamped on delivery, \<open>now\<close> the time of the call.\<close>

record ReceiveData =
  batch :: "ReceiveItem list"
  received_by :: string
  receive_notes :: "string option"

definition receive ::
  "string \<Rightarrow> nat \<Rightarrow> CoreState \<Rightarrow> ReceiveData \<Rightarrow> CoreError option \<times> CoreState" where
  "receive today now st d =
     (if po_status (purchaseOrder st) \<noteq> ORDERED \<and> po_status (purchaseOrder st) \<noteq> SHIPPED
      then (Some InvalidStateTransitionError, st)
      else (case receiveInto (po_items (purchaseOrder st)) (batch d) of
              Inl e \<Rightarrow> (Some e, st)
            | Inr lines \<Rightarrow>
                (None,
                 \<lparr> ledger = receiveStock (received_by d) now (po_items (purchaseOrder st)) (ledger st) (batch d),
                   purchaseOrder =
                     (if list_all (\<lambda>li. receivedSoFar li = PurchaseOrderItem.quantity_ordered li)
                           lines
                      then (purchaseOrder st)\<lparr> po_status := DELIVERED, po_items := lines,
                                        po_actual_delivery_date := Some today \<rparr>
                      else (purchaseOrder st)\<lparr> po_items := lines \<rparr>) \<rparr>)))"

text \<open>The index of the line a batch element references.\<close>

definition lineOf :: "PurchaseOrderItem list \<Rightarrow> ReceiveItem \<Rightarrow> nat option" where
  "lineOf lines r = findIndex (\<lambda>li. PurchaseOrderItem.id li = Some (item_id r)) lines"

text \<open>An order in status ORDERED with one line of 10 units, none received yet, and a
  batch that delivers 12 units against it.\<close>

definition sampleState :: CoreState where
  "sampleState =
     \<lparr> ledger = sampleLedger,
       purchaseOrder =
         \<lparr> po_status = ORDERED,
           po_items =
             [\<lparr> PurchaseOrderItem.id = Some ''line-1'',
                PurchaseOrderItem.product_id = ''1'',
                PurchaseOrderItem.quantity_ordered = 10,
                PurchaseOrderItem.quantity_received = Some 0,
                PurchaseOrderItem.unit_price = 1,
                PurchaseOrderItem.total_price = Some 10,
                PurchaseOrderItem.product_name = None,
                PurchaseOrderItem.product_sku = None,
                PurchaseOrderItem.supplier_sku = None,
                PurchaseOrderItem.is_received = Some False,
                PurchaseOrderItem.is_quality_checked = None,
                PurchaseOrderItem.quality_notes = None,
                PurchaseOrderItem.received_date = None \<rparr>],
           po_actual_delivery_date = None \<rparr> \<rparr>"

definition overBatch :: ReceiveData where
  "overBatch =
     \<lparr> batch = [\<lparr> item_id = ''line-1'', ReceiveItem.quantity_received = 12,
                   ReceiveItem.quality_notes = None \<rparr>],
       received_by = ''clerk'', receive_notes = None \<rparr>"

text \<open>The total a batch brings to the line at index \<open>i\<close>.\<close>

definition batchTotal :: "PurchaseOrderItem list \<Rightarrow> ReceiveItem list \<Rightarrow> nat \<Rightarrow> int" where
  "batchTotal lines rs i =
     (\<Sum>r\<leftarrow>filter (\<lambda>r. findIndex (\<lambda>li. PurchaseOrderItem.id li = Some (item_id r)) lines = Some i) rs.
        ReceiveItem.quantity_received r)"

section \<open>Verification\<close>

subsection \<open>Facts about the draft order\<close>

lemma findIndex_None: "findIndex P xs = None \<longleftrightarrow> (\<forall>x\<in>set xs. \<not> P x)"
  by (induction xs) (auto split: option.splits)

lemma findIndex_Some:
  "findIndex P xs = Some i \<Longrightarrow> i < length xs \<and> P (xs ! i) \<and> (\<forall>j<i. \<not> P (xs ! j))"
proof (induction xs arbitrary: i)
  case Nil
  then show ?case by simp
next
  case (Cons x xs)
  show ?case
  proof (cases "P x")
    case True
    with Cons.prems show ?thesis by simp
  next
    case False
    with Cons.prems obtain k where k: "findIndex P xs = Some k" "i = Suc k"
      by (auto split: option.splits)
    from Cons.IH [OF k(1)] False k(2) show ?thesis
      by (auto simp: nth_Cons split: nat.splits)
  qed
qed

lemma addProduct_Some:
  "findIndex (\<lambda>item. product_id item = Product.id p) items = Some i \<Longrightarrow>
   addProduct now p items = items[i := bumped (items ! i)]"
  by (simp add: addProduct_def Let_def bumped_def)

lemma addProduct_None:
  "findIndex (\<lambda>item. product_id item = Product.id p) items = None \<Longrightarrow>
   addProduct now p items = items @ [newItem now p]"
  by (simp add: addProduct_def newItem_def)

lemma priced_bumped: "priced (bumped item)"
  by (simp add: priced_def bumped_def)

lemma priced_newItem: "priced (newItem now p)"
  by (simp add: priced_def newItem_def)

lemma priced_addProduct:
  assumes "\<forall>item\<in>set items. priced item"
  shows "\<forall>item\<in>set (addProduct now p items). priced item"
proof (cases "findIndex (\<lambda>item. product_id item = Product.id p) items")
  case None
  show ?thesis unfolding addProduct_None [OF None] using assms priced_newItem by simp
next
  case (Some i)
  show ?thesis
  proof
    fix item assume "item \<in> set (addProduct now p items)"
    then have "item \<in> set (items[i := bumped (items ! i)])"
      by (simp only: addProduct_Some [OF Some])
    then have "item \<in> insert (bumped (items ! i)) (set items)"
      using set_update_subset_insert [of items i "bumped (items ! i)"] by (rule subsetD [rotated])
    then show "priced item" using priced_bumped assms by (elim insertE) simp_all
  qed
qed

lemma ball_updateOrderItem:
  "(\<forall>item\<in>set (updateOrderItem itemId upd items). Q item) \<longleftrightarrow>
   (\<forall>item\<in>set items.
      Q (if OrderItem.id item = itemId
         then (let updatedItem = assignField item upd
               in if recalculates upd
                  then updatedItem\<lparr>total_price :=
                         of_int (quantity_ordered updatedItem) * unit_price updatedItem\<rparr>
                  else updatedItem)
         else item))"
  unfolding updateOrderItem_def set_map by (simp only: ball_simps)

lemma priced_updateOrderItem:
  assumes "\<forall>item\<in>set items. priced item" and "recalculates upd"
  shows "\<forall>item\<in>set (updateOrderItem itemId upd items). priced item"
  unfolding ball_updateOrderItem using assms
  by (simp add: priced_def Let_def)

lemma priced_removeOrderItem:
  assumes "\<forall>item\<in>set items. priced item"
  shows "\<forall>item\<in>set (removeOrderItem itemId items). priced item"
  using assms by (simp add: removeOrderItem_def)

lemma priced_modalStep:
  assumes "\<forall>item\<in>set items. priced item"
  shows "\<forall>item\<in>set (modalStep items e). priced item"
proof (cases e)
  case (ClickProduct now p)
  with priced_addProduct [OF assms] show ?thesis by simp
next
  case (QuantityInput itemId v)
  with priced_updateOrderItem [OF assms, of "Set_quantity_ordered (orElse v 1)" itemId]
  show ?thesis by simp
next
  case (UnitPriceInput itemId v)
  with priced_updateOrderItem [OF assms, of "Set_unit_price (orElse v 0)" itemId]
  show ?thesis by simp
next
  case (ClickRemove itemId)
  with priced_removeOrderItem [OF assms] show ?thesis by simp
next
  case ResetForm
  then show ?thesis by simp
qed

lemma priced_foldl:
  "\<forall>item\<in>set items. priced item \<Longrightarrow> \<forall>item\<in>set (foldl modalStep items events). priced item"
proof (induction events arbitrary: items)
  case Nil
  then show ?case by simp
next
  case (Cons e events)
  from Cons.IH [OF priced_modalStep [OF Cons.prems]] show ?case by simp
qed

lemma demo_draft:
  "draftAfter [ClickProduct 5 (hd getMockProducts), QuantityInput ''5'' (Some 3)] =
     [\<lparr> id = ''5'', product_id = ''1'', product_name = ''Whole Milk 1L'',
        product_sku = ''MILK-001'', quantity_ordered = 3, unit_price = 0.89,
        supplier_sku = None, total_price = 3 * 0.89 \<rparr>]"
  by (simp add: draftAfter_def addProduct_def newItem_def updateOrderItem_def orElse_def
      getMockProducts_def mockProduct_def toString.simps digit_char_def)

text \<open>
  Claim C5. Every line item of a draft order that the modal can reach has
  \<open>total_price = quantity_ordered \<times> unit_price\<close>; and \<open>updateOrderItem\<close> on
  \<open>quantity_ordered\<close> or on \<open>unit_price\<close> stores the new value and recomputes
  \<open>total_price\<close> as the product of the new values.
\<close>

theorem line_item_total_price:
  "(\<forall>item\<in>set (draftAfter events).
      total_price item = of_int (quantity_ordered item) * unit_price item) \<and>
   (\<forall>item\<in>set (updateOrderItem itemId (Set_quantity_ordered q) items).
      OrderItem.id item = itemId \<longrightarrow>
        quantity_ordered item = q \<and> total_price item = of_int q * unit_price item) \<and>
   (\<forall>item\<in>set (updateOrderItem itemId (Set_unit_price u) items).
      OrderItem.id item = itemId \<longrightarrow>
        unit_price item = u \<and> total_price item = of_int (quantity_ordered item) * u)"
proof (intro conjI)
  have "\<forall>item\<in>set (foldl modalStep [] events). priced item"
    by (rule priced_foldl) simp
  then show "\<forall>item\<in>set (draftAfter events).
      total_price item = of_int (quantity_ordered item) * unit_price item"
    by (simp add: draftAfter_def priced_def)
next
  show "\<forall>item\<in>set (updateOrderItem itemId (Set_quantity_ordered q) items).
      OrderItem.id item = itemId \<longrightarrow>
        quantity_ordered item = q \<and> total_price item = of_int q * unit_price item"
    unfolding ball_updateOrderItem by simp
next
  show "\<forall>item\<in>set (updateOrderItem itemId (Set_unit_price u) items).
      OrderItem.id item = itemId \<longrightarrow>
        unit_price item = u \<and> total_price item = of_int (quantity_ordered item) * u"
    unfolding ball_updateOrderItem by simp
qed

theorem line_item_total_price_witness:
  "hd (draftAfter [ClickProduct 5 (hd getMockProducts), QuantityInput ''5'' (Some 3)])
     \<in> set (draftAfter [ClickProduct 5 (hd getMockProducts), QuantityInput ''5'' (Some 3)]) \<and>
   quantity_ordered (hd (draftAfter [ClickProduct 5 (hd getMockProducts), QuantityInput ''5'' (Some 3)])) = 3 \<and>
   total_price (hd (draftAfter [ClickProduct 5 (hd getMockProducts), QuantityInput ''5'' (Some 3)])) = 3 * 0.89 \<and>
   hd (updateOrderItem ''5'' (Set_quantity_ordered 7)
         (draftAfter [ClickProduct 5 (hd getMockProducts)]))
     \<in> set (updateOrderItem ''5'' (Set_quantity_ordered 7)
         (draftAfter [ClickProduct 5 (hd getMockProducts)])) \<and>
   OrderItem.id (hd (updateOrderItem ''5'' (Set_quantity_ordered 7)
         (draftAfter [ClickProduct 5 (hd getMockProducts)]))) = ''5'' \<and>
   total_price (hd (updateOrderItem ''5'' (Set_quantity_ordered 7)
         (draftAfter [ClickProduct 5 (hd getMockProducts)]))) = 7 * 0.89 \<and>
   hd (updateOrderItem ''5'' (Set_unit_price 2)
         (draftAfter [ClickProduct 5 (hd getMockProducts)]))
     \<in> set (updateOrderItem ''5'' (Set_unit_price 2)
         (draftAfter [ClickProduct 5 (hd getMockProducts)])) \<and>
   OrderItem.id (hd (updateOrderItem ''5'' (Set_unit_price 2)
         (draftAfter [ClickProduct 5 (hd getMockProducts)]))) = ''5'' \<and>
   total_price (hd (updateOrderItem ''5'' (Set_unit_price 2)
         (draftAfter [ClickProduct 5 (hd getMockProducts)]))) = 1 * 2"
proof -
  have d1: "draftAfter [ClickProduct 5 (hd getMockProducts)] =
     [\<lparr> id = ''5'', product_id = ''1'', product_name = ''Whole Milk 1L'',
        product_sku = ''MILK-001'', quantity_ordered = 1, unit_price = 0.89,
        supplier_sku = None, total_price = 0.89 \<rparr>]"
    by (simp add: draftAfter_def addProduct_def newItem_def
        getMockProducts_def mockProduct_def toString.simps digit_char_def)
  note t = line_item_total_price
    [of "[ClickProduct 5 (hd getMockProducts), QuantityInput ''5'' (Some 3)]" "''5''" 7
        "draftAfter [ClickProduct 5 (hd getMockProducts)]" 2]
  show ?thesis
    using t unfolding demo_draft d1 by (simp add: updateOrderItem_def)
qed

lemma product_ids_addProduct_present:
  assumes "findIndex (\<lambda>item. product_id item = Product.id p) items = Some i"
  shows "map product_id (addProduct now p items) = map product_id items"
proof -
  have "i < length items" using findIndex_Some [OF assms] by simp
  then have "(map product_id items)[i := product_id (bumped (items ! i))] = map product_id items"
    by (simp add: bumped_def list_update_same_conv)
  then show ?thesis by (simp add: addProduct_Some [OF assms] map_update)
qed

lemma product_ids_addProduct_absent:
  assumes "findIndex (\<lambda>item. product_id item = Product.id p) items = None"
  shows "map product_id (addProduct now p items) = map product_id items @ [Product.id p]"
  using assms by (simp add: addProduct_None newItem_def)

lemma distinct_addProduct:
  assumes "distinct (map product_id items)"
  shows "distinct (map product_id (addProduct now p items))"
proof (cases "findIndex (\<lambda>item. product_id item = Product.id p) items")
  case None
  then have "Product.id p \<notin> set (map product_id items)"
    by (auto simp: findIndex_None)
  with assms show ?thesis by (simp add: product_ids_addProduct_absent [OF None])
next
  case (Some i)
  with assms show ?thesis by (simp add: product_ids_addProduct_present)
qed

lemma product_ids_updateOrderItem:
  "recalculates upd \<Longrightarrow> map product_id (updateOrderItem itemId upd items) = map product_id items"
  by (cases upd) (simp_all add: updateOrderItem_def)

lemma distinct_modalStep:
  assumes "distinct (map product_id items)"
  shows "distinct (map product_id (modalStep items e))"
proof (cases e)
  case (ClickProduct now p)
  with distinct_addProduct [OF assms] show ?thesis by simp
next
  case (ClickRemove itemId)
  with assms show ?thesis by (simp add: removeOrderItem_def distinct_map_filter)
qed (use assms in \<open>simp_all add: product_ids_updateOrderItem\<close>)

lemma distinct_foldl:
  "distinct (map product_id items) \<Longrightarrow> distinct (map product_id (foldl modalStep items events))"
proof (induction events arbitrary: items)
  case Nil
  then show ?case by simp
next
  case (Cons e events)
  from Cons.IH [OF distinct_modalStep [OF Cons.prems]] show ?case by simp
qed

text \<open>
  Claim C10. The line items of every reachable draft order have pairwise distinct
  product ids; and \<open>addProduct\<close> on a product already among the line items adds no
  line: the product ids stay as they are, the first line of that product has its
  \<open>quantity_ordered\<close> incremented by 1 and its \<open>total_price\<close> recomputed as
  \<open>quantity_ordered \<times> unit_price\<close>, and every other line is unchanged.
\<close>

theorem addProduct_merges_existing_line:
  "distinct (map product_id (draftAfter events)) \<and>
   (Product.id p \<in> set (map product_id items) \<longrightarrow>
      map product_id (addProduct now p items) = map product_id items \<and>
      (\<exists>i<length items.
         product_id (items ! i) = Product.id p \<and>
         quantity_ordered (addProduct now p items ! i) = quantity_ordered (items ! i) + 1 \<and>
         total_price (addProduct now p items ! i) =
           of_int (quantity_ordered (addProduct now p items ! i)) *
             unit_price (addProduct now p items ! i) \<and>
         (\<forall>j<length items. j \<noteq> i \<longrightarrow> addProduct now p items ! j = items ! j)))"
proof (intro conjI impI)
  show "distinct (map product_id (draftAfter events))"
    unfolding draftAfter_def by (rule distinct_foldl) simp
next
  assume "Product.id p \<in> set (map product_id items)"
  then obtain i where i: "findIndex (\<lambda>item. product_id item = Product.id p) items = Some i"
    using findIndex_None [of "\<lambda>item. product_id item = Product.id p" items] by fastforce
  then show "map product_id (addProduct now p items) = map product_id items"
    by (rule product_ids_addProduct_present)
  have "i < length items" "product_id (items ! i) = Product.id p"
    using findIndex_Some [OF i] by simp_all
  then show "\<exists>i<length items.
         product_id (items ! i) = Product.id p \<and>
         quantity_ordered (addProduct now p items ! i) = quantity_ordered (items ! i) + 1 \<and>
         total_price (addProduct now p items ! i) =
           of_int (quantity_ordered (addProduct now p items ! i)) *
             unit_price (addProduct now p items ! i) \<and>
         (\<forall>j<length items. j \<noteq> i \<longrightarrow> addProduct now p items ! j = items ! j)"
    by (intro exI [of _ i]) (simp add: addProduct_Some [OF i] bumped_def)
qed

theorem addProduct_merges_existing_line_witness:
  "Product.id (hd getMockProducts) \<in> set (map product_id (draftAfter [ClickProduct 5 (hd getMockProducts)])) \<and>
   map product_id (addProduct 6 (hd getMockProducts) (draftAfter [ClickProduct 5 (hd getMockProducts)])) = [''1''] \<and>
   map quantity_ordered (addProduct 6 (hd getMockProducts) (draftAfter [ClickProduct 5 (hd getMockProducts)])) = [2] \<and>
   map total_price (addProduct 6 (hd getMockProducts) (draftAfter [ClickProduct 5 (hd getMockProducts)])) = [2 * 0.89]"
proof -
  have d1: "draftAfter [ClickProduct 5 (hd getMockProducts)] =
     [\<lparr> id = ''5'', product_id = ''1'', product_name = ''Whole Milk 1L'',
        product_sku = ''MILK-001'', quantity_ordered = 1, unit_price = 0.89,
        supplier_sku = None, total_price = 0.89 \<rparr>]"
    by (simp add: draftAfter_def addProduct_def newItem_def
        getMockProducts_def mockProduct_def toString.simps digit_char_def)
  have p: "Product.id (hd getMockProducts) = ''1''"
    by (simp add: getMockProducts_def mockProduct_def)
  note t = addProduct_merges_existing_line
    [of "[ClickProduct 5 (hd getMockProducts)]" "hd getMockProducts"
        "draftAfter [ClickProduct 5 (hd getMockProducts)]" 6]
  show ?thesis
    using t unfolding d1 by (simp add: p addProduct_def bumped_def)
qed









subsection \<open>Facts about form validation\<close>

lemma keys_assign: "keys (assign k v e) = insert k (keys e)"
  by (induction e) (auto simp: keys_def)

lemma keys_check: "keys (check (c, k, v) e) = (if c then insert k (keys e) else keys e)"
  by (simp add: check_def keys_assign)

lemma keys_fold_check:
  "keys (fold check cs e) = keys e \<union> {k. \<exists>v. (True, k, v) \<in> set cs}"
proof (induction cs arbitrary: e)
  case Nil
  then show ?case by simp
next
  case (Cons c cs)
  obtain b k v where c: "c = (b, k, v)" by (cases c)
  show ?case unfolding c by (cases b) (auto simp: Cons.IH keys_check)
qed

lemma keys_runChecks: "keys (runChecks cs) = {k. \<exists>v. (True, k, v) \<in> set cs}"
proof -
  have "keys (fold check cs []) = keys [] \<union> {k. \<exists>v. (True, k, v) \<in> set cs}"
    by (rule keys_fold_check)
  then show ?thesis by (simp add: runChecks_def keys_def)
qed

lemma keys_empty: "keys e = {} \<longleftrightarrow> length e = 0"
  by (simp add: keys_def)

lemma reported: "(True, k, v) \<in> set cs \<Longrightarrow> k \<in> keys (runChecks cs)"
  by (auto simp: keys_runChecks)

lemma itemChecks_in:
  assumes "i < length items"
  shows "set (itemChecks i (items ! i)) \<subseteq> set (checks_CreatePurchaseOrderModal
           \<lparr>selectedSupplierId = s, expectedDeliveryDate = d, orderItems = items\<rparr>)"
proof -
  have "(i, items ! i) \<in> set (zip [0..<length items] items)"
    unfolding set_zip using assms by (auto intro!: exI [of _ i])
  then show ?thesis
    by (fastforce simp: checks_CreatePurchaseOrderModal_def)
qed

lemma badItem_items:
  "orderItems badItemForm =
     [\<lparr> id = ''5'', product_id = ''1'', product_name = ''Whole Milk 1L'',
        product_sku = ''MILK-001'', quantity_ordered = - 2, unit_price = 0,
        supplier_sku = None, total_price = 0 \<rparr>]"
  by (simp add: badItemForm_def initialPurchaseOrderForm_def draftAfter_def addProduct_def
      newItem_def updateOrderItem_def orElse_def getMockProducts_def mockProduct_def
      toString.simps digit_char_def)

text \<open>
  Claim C6, as amended. Validation of a create form reports every violated field at
  once. In the add-product form each of: blank name, blank SKU, blank category, cost
  price \<open>\<le> 0\<close>, selling price \<open>\<le> 0\<close>, negative minimum threshold, puts its field among the
  reported keys, and the maximum threshold is reported exactly when it is set, is not 0
  and is not above the minimum: a maximum of 0 counts as unset, is not reported, and is
  submitted as \<open>undefined\<close>. In the create-purchase-order form each of: no supplier, no
  line item, a line item with quantity \<open>\<le> 0\<close>, a line item with unit price \<open>\<le> 0\<close>, puts
  its key among those reported. Validation succeeds exactly when no key is reported, so
  any one reported violation makes it fail.
\<close>

theorem validation_reports_every_violation:
  "(trim (ProductCreateData.name f) = [] \<longrightarrow> ''name'' \<in> keys (errors_AddProductModal f)) \<and>
   (trim (ProductCreateData.sku f) = [] \<longrightarrow> ''sku'' \<in> keys (errors_AddProductModal f)) \<and>
   (trim (ProductCreateData.category f) = [] \<longrightarrow>
      ''category'' \<in> keys (errors_AddProductModal f)) \<and>
   (ProductCreateData.cost_price f \<le> 0 \<longrightarrow>
      ''cost_price'' \<in> keys (errors_AddProductModal f)) \<and>
   (ProductCreateData.selling_price f \<le> 0 \<longrightarrow>
      ''selling_price'' \<in> keys (errors_AddProductModal f)) \<and>
   (ProductCreateData.min_stock_threshold f < 0 \<longrightarrow>
      ''min_stock_threshold'' \<in> keys (errors_AddProductModal f)) \<and>
   (''max_stock_threshold'' \<in> keys (errors_AddProductModal f) \<longleftrightarrow>
      (\<exists>m. ProductCreateData.max_stock_threshold f = Some m \<and> m \<noteq> 0 \<and>
         m \<le> ProductCreateData.min_stock_threshold f)) \<and>
   (validateForm_AddProductModal f \<longleftrightarrow> keys (errors_AddProductModal f) = {}) \<and>
   (selectedSupplierId po = [] \<longrightarrow>
      ''supplier'' \<in> keys (errors_CreatePurchaseOrderModal po)) \<and>
   (orderItems po = [] \<longrightarrow> ''items'' \<in> keys (errors_CreatePurchaseOrderModal po)) \<and>
   (\<forall>i<length (orderItems po).
      quantity_ordered (orderItems po ! i) \<le> 0 \<longrightarrow>
        ''item_'' @ toString i @ ''_quantity'' \<in> keys (errors_CreatePurchaseOrderModal po)) \<and>
   (\<forall>i<length (orderItems po).
      unit_price (orderItems po ! i) \<le> 0 \<longrightarrow>
        ''item_'' @ toString i @ ''_price'' \<in> keys (errors_CreatePurchaseOrderModal po)) \<and>
   (validateForm_CreatePurchaseOrderModal po \<longleftrightarrow>
      keys (errors_CreatePurchaseOrderModal po) = {}) \<and>
   (\<forall>payload.
      handleSubmit_AddProductModal toISOString f = Some payload \<and>
      ProductCreateData.max_stock_threshold f = Some 0 \<longrightarrow>
        ProductCreateData.max_stock_threshold payload = None)"
proof -
  have add: "(True, k, v) \<in> set (checks_AddProductModal f) \<Longrightarrow>
             k \<in> keys (errors_AddProductModal f)" for k v
    unfolding errors_AddProductModal_def by (rule reported)
  have po: "(True, k, v) \<in> set (checks_CreatePurchaseOrderModal po) \<Longrightarrow>
            k \<in> keys (errors_CreatePurchaseOrderModal po)" for k v
    unfolding errors_CreatePurchaseOrderModal_def by (rule reported)
  have po_eq: "po = \<lparr>selectedSupplierId = selectedSupplierId po,
        expectedDeliveryDate = expectedDeliveryDate po, orderItems = orderItems po\<rparr>"
    by simp
  have item: "set (itemChecks i (orderItems po ! i)) \<subseteq> set (checks_CreatePurchaseOrderModal po)"
    if "i < length (orderItems po)" for i
    using itemChecks_in [OF that, of "selectedSupplierId po" "expectedDeliveryDate po"]
    by (simp flip: po_eq)
  have c1: "trim (ProductCreateData.name f) = [] \<longrightarrow> ''name'' \<in> keys (errors_AddProductModal f)"
    by (auto intro!: add simp: checks_AddProductModal_def)
  have c2: "trim (ProductCreateData.sku f) = [] \<longrightarrow> ''sku'' \<in> keys (errors_AddProductModal f)"
    by (auto intro!: add simp: checks_AddProductModal_def)
  have c3: "trim (ProductCreateData.category f) = [] \<longrightarrow>
      ''category'' \<in> keys (errors_AddProductModal f)"
    by (auto intro!: add simp: checks_AddProductModal_def)
  have c4: "ProductCreateData.cost_price f \<le> 0 \<longrightarrow>
      ''cost_price'' \<in> keys (errors_AddProductModal f)"
    by (auto intro!: add simp: checks_AddProductModal_def)
  have c5: "ProductCreateData.selling_price f \<le> 0 \<longrightarrow>
      ''selling_price'' \<in> keys (errors_AddProductModal f)"
    by (auto intro!: add simp: checks_AddProductModal_def)
  have c6: "ProductCreateData.min_stock_threshold f < 0 \<longrightarrow>
      ''min_stock_threshold'' \<in> keys (errors_AddProductModal f)"
    by (auto intro!: add simp: checks_AddProductModal_def)
  have c7: "''max_stock_threshold'' \<in> keys (errors_AddProductModal f) \<longleftrightarrow>
      (\<exists>m. ProductCreateData.max_stock_threshold f = Some m \<and> m \<noteq> 0 \<and>
         m \<le> ProductCreateData.min_stock_threshold f)"
    unfolding errors_AddProductModal_def keys_runChecks
    by (auto simp: checks_AddProductModal_def split: option.splits)
  have c8: "validateForm_AddProductModal f \<longleftrightarrow> keys (errors_AddProductModal f) = {}"
    by (simp add: validateForm_AddProductModal_def keys_empty)
  have p1: "selectedSupplierId po = [] \<longrightarrow>
      ''supplier'' \<in> keys (errors_CreatePurchaseOrderModal po)"
    by (auto intro!: po simp: checks_CreatePurchaseOrderModal_def)
  have p2: "orderItems po = [] \<longrightarrow> ''items'' \<in> keys (errors_CreatePurchaseOrderModal po)"
    by (auto intro!: po simp: checks_CreatePurchaseOrderModal_def)
  have p3: "\<forall>i<length (orderItems po).
      quantity_ordered (orderItems po ! i) \<le> 0 \<longrightarrow>
        ''item_'' @ toString i @ ''_quantity'' \<in> keys (errors_CreatePurchaseOrderModal po)"
  proof (intro allI impI)
    fix i assume i: "i < length (orderItems po)" and "quantity_ordered (orderItems po ! i) \<le> 0"
    then have "(True, ''item_'' @ toString i @ ''_quantity'', ''Quantity must be greater than 0'')
        \<in> set (itemChecks i (orderItems po ! i))"
      by (simp add: itemChecks_def)
    with item [OF i] show "''item_'' @ toString i @ ''_quantity''
        \<in> keys (errors_CreatePurchaseOrderModal po)"
      by (blast intro: po)
  qed
  have p4: "\<forall>i<length (orderItems po).
      unit_price (orderItems po ! i) \<le> 0 \<longrightarrow>
        ''item_'' @ toString i @ ''_price'' \<in> keys (errors_CreatePurchaseOrderModal po)"
  proof (intro allI impI)
    fix i assume i: "i < length (orderItems po)" and "unit_price (orderItems po ! i) \<le> 0"
    then have "(True, ''item_'' @ toString i @ ''_price'', ''Unit price must be greater than 0'')
        \<in> set (itemChecks i (orderItems po ! i))"
      by (simp add: itemChecks_def)
    with item [OF i] show "''item_'' @ toString i @ ''_price''
        \<in> keys (errors_CreatePurchaseOrderModal po)"
      by (blast intro: po)
  qed
  have p5: "validateForm_CreatePurchaseOrderModal po \<longleftrightarrow>
      keys (errors_CreatePurchaseOrderModal po) = {}"
    by (simp add: validateForm_CreatePurchaseOrderModal_def keys_empty)
  have s: "\<forall>payload.
      handleSubmit_AddProductModal toISOString f = Some payload \<and>
      ProductCreateData.max_stock_threshold f = Some 0 \<longrightarrow>
        ProductCreateData.max_stock_threshold payload = None"
    by (auto simp: handleSubmit_AddProductModal_def numberOrUndefined_def
        split: if_splits option.splits)
  from c1 c2 c3 c4 c5 c6 c7 c8 p1 p2 p3 p4 p5 s show ?thesis by blast
qed


theorem validation_reports_every_violation_witness:
  "trim (ProductCreateData.name badThresholdFormData) = [] \<and>
   trim (ProductCreateData.sku badThresholdFormData) = [] \<and>
   trim (ProductCreateData.category badThresholdFormData) = [] \<and>
   ProductCreateData.cost_price badThresholdFormData \<le> 0 \<and>
   ProductCreateData.selling_price badThresholdFormData \<le> 0 \<and>
   ProductCreateData.min_stock_threshold badThresholdFormData < 0 \<and>
   ProductCreateData.max_stock_threshold badThresholdFormData = Some (- 5) \<and>
   {''name'', ''sku'', ''category'', ''cost_price'', ''selling_price'', ''min_stock_threshold'',
    ''max_stock_threshold''} \<subseteq> keys (errors_AddProductModal badThresholdFormData) \<and>
   \<not> validateForm_AddProductModal badThresholdFormData \<and>
   selectedSupplierId initialPurchaseOrderForm = [] \<and>
   orderItems initialPurchaseOrderForm = [] \<and>
   {''supplier'', ''items''} \<subseteq> keys (errors_CreatePurchaseOrderModal initialPurchaseOrderForm) \<and>
   \<not> validateForm_CreatePurchaseOrderModal initialPurchaseOrderForm \<and>
   0 < length (orderItems badItemForm) \<and>
   quantity_ordered (orderItems badItemForm ! 0) \<le> 0 \<and>
   unit_price (orderItems badItemForm ! 0) \<le> 0 \<and>
   {''supplier'', ''item_0_quantity'', ''item_0_price''}
     \<subseteq> keys (errors_CreatePurchaseOrderModal badItemForm) \<and>
   \<not> validateForm_CreatePurchaseOrderModal badItemForm \<and>
   ProductCreateData.max_stock_threshold zeroMaxFormData = Some 0 \<and>
   map_option ProductCreateData.max_stock_threshold
     (handleSubmit_AddProductModal Some zeroMaxFormData) = Some None"
proof -
  have f: "trim (ProductCreateData.name badThresholdFormData) = []"
      "trim (ProductCreateData.sku badThresholdFormData) = []"
      "trim (ProductCreateData.category badThresholdFormData) = []"
      "ProductCreateData.cost_price badThresholdFormData \<le> 0"
      "ProductCreateData.selling_price badThresholdFormData \<le> 0"
      "ProductCreateData.min_stock_threshold badThresholdFormData < 0"
      "ProductCreateData.max_stock_threshold badThresholdFormData = Some (- 5)"
    by (simp_all add: badThresholdFormData_def initialFormData_def trim_def trimStart_def trimEnd_def)
  have p1: "selectedSupplierId initialPurchaseOrderForm = []"
      "orderItems initialPurchaseOrderForm = []"
    by (simp_all add: initialPurchaseOrderForm_def)
  have p2: "selectedSupplierId badItemForm = []"
      "0 < length (orderItems badItemForm)"
      "quantity_ordered (orderItems badItemForm ! 0) \<le> 0"
      "unit_price (orderItems badItemForm ! 0) \<le> 0"
    by (simp_all add: badItem_items) (simp add: badItemForm_def initialPurchaseOrderForm_def)
  have z: "toString 0 = ''0''"
    by (simp add: toString.simps digit_char_def)
  note t1 = validation_reports_every_violation [of badThresholdFormData initialPurchaseOrderForm Some]
  note t2 = validation_reports_every_violation [of badThresholdFormData badItemForm Some]
  have m: "ProductCreateData.min_stock_threshold badThresholdFormData = - 1"
    by (simp add: badThresholdFormData_def initialFormData_def)
  have k1: "''max_stock_threshold'' \<in> keys (errors_AddProductModal badThresholdFormData)"
    using t1 f by (simp add: m)
  have z0: "ProductCreateData.max_stock_threshold zeroMaxFormData = Some 0"
    by (simp add: zeroMaxFormData_def)
  have "handleSubmit_AddProductModal Some zeroMaxFormData \<noteq> None"
    by code_simp
  then obtain payload where sub: "handleSubmit_AddProductModal Some zeroMaxFormData = Some payload"
    by auto
  have z1: "ProductCreateData.max_stock_threshold payload = None"
    using validation_reports_every_violation [of zeroMaxFormData initialPurchaseOrderForm Some]
      sub z0 by blast
  have a: "trim (ProductCreateData.name badThresholdFormData) = [] \<and>
   trim (ProductCreateData.sku badThresholdFormData) = [] \<and>
   trim (ProductCreateData.category badThresholdFormData) = [] \<and>
   ProductCreateData.cost_price badThresholdFormData \<le> 0 \<and>
   ProductCreateData.selling_price badThresholdFormData \<le> 0 \<and>
   ProductCreateData.min_stock_threshold badThresholdFormData < 0 \<and>
   ProductCreateData.max_stock_threshold badThresholdFormData = Some (- 5) \<and>
   {''name'', ''sku'', ''category'', ''cost_price'', ''selling_price'', ''min_stock_threshold'',
    ''max_stock_threshold''} \<subseteq> keys (errors_AddProductModal badThresholdFormData) \<and>
   \<not> validateForm_AddProductModal badThresholdFormData \<and>
   selectedSupplierId initialPurchaseOrderForm = [] \<and>
   orderItems initialPurchaseOrderForm = [] \<and>
   {''supplier'', ''items''} \<subseteq> keys (errors_CreatePurchaseOrderModal initialPurchaseOrderForm) \<and>
   \<not> validateForm_CreatePurchaseOrderModal initialPurchaseOrderForm \<and>
   0 < length (orderItems badItemForm) \<and>
   quantity_ordered (orderItems badItemForm ! 0) \<le> 0 \<and>
   unit_price (orderItems badItemForm ! 0) \<le> 0 \<and>
   {''supplier'', ''item_0_quantity'', ''item_0_price''}
     \<subseteq> keys (errors_CreatePurchaseOrderModal badItemForm) \<and>
   \<not> validateForm_CreatePurchaseOrderModal badItemForm"
    using t1 t2 f p1 p2 k1 by (auto simp: z)
  with z0 z1 sub show ?thesis by simp
qed



text \<open>
  The claim as stated fails: with a minimum threshold of 10 and a maximum threshold of 0
  the add-product form reports nothing and submits the product without a maximum, while
  the edit form reports the same pair of thresholds under \<open>max_stock_threshold\<close>.
\<close>

theorem zero_maximum_threshold_counterexample:
  "ProductCreateData.min_stock_threshold zeroMaxFormData = 10 \<and>
   ProductCreateData.max_stock_threshold zeroMaxFormData = Some 0 \<and>
   errors_AddProductModal zeroMaxFormData = [] \<and>
   validateForm_AddProductModal zeroMaxFormData \<and>
   map_option ProductCreateData.max_stock_threshold
     (handleSubmit_AddProductModal Some zeroMaxFormData) = Some None \<and>
   errors_EditProductModal
     (editFormAfter (hd getMockProducts) [MinThresholdInput (Some 10), MaxThresholdInput (Some 0)])
     = [(''max_stock_threshold'', ''Maximum threshold must be greater than minimum threshold'')]"
  by code_simp

text \<open>
  Claim C8, as amended. In both product forms a selling price that is not above the
  cost price is reported under the key \<open>selling_price\<close> like any other validation
  error: \<open>validateForm\<close> returns false and \<open>handleSubmit\<close> returns before \<open>onSave\<close>, so
  neither the create nor the update is submitted. (The forms have no separate notion of
  a warning.)
\<close>

theorem selling_price_at_most_cost_blocks_submit:
  "(ProductCreateData.selling_price f \<le> ProductCreateData.cost_price f \<longrightarrow>
      ''selling_price'' \<in> keys (errors_AddProductModal f) \<and>
      \<not> validateForm_AddProductModal f \<and>
      handleSubmit_AddProductModal toISOString f = None) \<and>
   (orNum (PartialProduct.selling_price e) 0 \<le> orNum (PartialProduct.cost_price e) 0 \<longrightarrow>
      ''selling_price'' \<in> keys (errors_EditProductModal e) \<and>
      \<not> validateForm_EditProductModal e \<and>
      handleSubmit_EditProductModal toISOString p e = None)"
proof (intro conjI impI)
  assume h: "ProductCreateData.selling_price f \<le> ProductCreateData.cost_price f"
  then have "(True, ''selling_price'', ''Selling price should be greater than cost price'')
      \<in> set (checks_AddProductModal f)"
    by (simp add: checks_AddProductModal_def)
  then show k: "''selling_price'' \<in> keys (errors_AddProductModal f)"
    unfolding errors_AddProductModal_def by (rule reported)
  then show v: "\<not> validateForm_AddProductModal f"
    by (auto simp: validateForm_AddProductModal_def keys_def)
  then show "handleSubmit_AddProductModal toISOString f = None"
    by (simp add: handleSubmit_AddProductModal_def)
next
  assume h: "orNum (PartialProduct.selling_price e) 0 \<le> orNum (PartialProduct.cost_price e) 0"
  then have "(True, ''selling_price'', ''Selling price should be greater than cost price'')
      \<in> set (checks_EditProductModal e)"
    by (simp add: checks_EditProductModal_def)
  then show k: "''selling_price'' \<in> keys (errors_EditProductModal e)"
    unfolding errors_EditProductModal_def by (rule reported)
  then show v: "\<not> validateForm_EditProductModal e"
    by (auto simp: validateForm_EditProductModal_def keys_def)
  then show "handleSubmit_EditProductModal toISOString p e = None"
    by (simp add: handleSubmit_EditProductModal_def split: option.splits)
qed

theorem selling_price_at_most_cost_blocks_submit_witness:
  "ProductCreateData.selling_price equalPriceFormData
     \<le> ProductCreateData.cost_price equalPriceFormData \<and>
   ''selling_price'' \<in> keys (errors_AddProductModal equalPriceFormData) \<and>
   \<not> validateForm_AddProductModal equalPriceFormData \<and>
   handleSubmit_AddProductModal Some equalPriceFormData = None \<and>
   orNum (PartialProduct.selling_price (populate (hd getMockProducts)
            \<lparr>PartialProduct.selling_price := Some 0.5\<rparr>)) 0
     \<le> orNum (PartialProduct.cost_price (populate (hd getMockProducts)
            \<lparr>PartialProduct.selling_price := Some 0.5\<rparr>)) 0 \<and>
   handleSubmit_EditProductModal Some (Some (hd getMockProducts))
     (populate (hd getMockProducts)\<lparr>PartialProduct.selling_price := Some 0.5\<rparr>) = None"
proof -
  have h1: "ProductCreateData.selling_price equalPriceFormData
     \<le> ProductCreateData.cost_price equalPriceFormData"
    by (simp add: equalPriceFormData_def initialFormData_def)
  have h2: "orNum (PartialProduct.selling_price (populate (hd getMockProducts)
            \<lparr>PartialProduct.selling_price := Some 0.5\<rparr>)) 0
     \<le> orNum (PartialProduct.cost_price (populate (hd getMockProducts)
            \<lparr>PartialProduct.selling_price := Some 0.5\<rparr>)) 0"
    by (simp add: populate_def orNum_def getMockProducts_def mockProduct_def)
  show ?thesis
    using selling_price_at_most_cost_blocks_submit
      [where f = equalPriceFormData
         and e = "populate (hd getMockProducts)\<lparr>PartialProduct.selling_price := Some 0.5\<rparr>"
         and toISOString = Some and p = "Some (hd getMockProducts)"] h1 h2
    by blast
qed

text \<open>
  The claim as stated fails: a form whose only reported error is the selling price
  (equal to the cost price) is not submitted, in the add form and in the edit form.
\<close>

theorem selling_price_warning_counterexample:
  "ProductCreateData.selling_price equalPriceFormData
     \<le> ProductCreateData.cost_price equalPriceFormData \<and>
   errors_AddProductModal equalPriceFormData =
     [(''selling_price'', ''Selling price should be greater than cost price'')] \<and>
   handleSubmit_AddProductModal Some equalPriceFormData = None \<and>
   errors_EditProductModal
     (editFormAfter (hd getMockProducts) [SellingPriceInput (Some 0.89)]) =
     [(''selling_price'', ''Selling price should be greater than cost price'')] \<and>
   handleSubmit_EditProductModal Some (Some (hd getMockProducts))
     (editFormAfter (hd getMockProducts) [SellingPriceInput (Some 0.89)]) = None"
  by code_simp

subsection \<open>Facts about the displayed stock status\<close>

lemma statusConsistent_mock: "\<forall>p\<in>set getMockProducts. statusConsistent p"
  by (simp add: getMockProducts_def mockProduct_def statusConsistent_def computeStockStatus_def)

lemma pageStep_rows:
  "set (pageStep products e) \<subseteq> set products \<union> set getMockProducts \<union> set (deliveredBy e)"
proof (cases e)
  case (Load response)
  then show ?thesis by (cases response) (auto simp: loadProducts_def)
next
  case (Add response)
  then show ?thesis by (cases response) (auto simp: handleAddProduct_def)
next
  case (Edit productId response)
  then show ?thesis by (cases response) (auto simp: handleEditProduct_def)
next
  case (Delete productId succeeded)
  then show ?thesis by (auto simp: handleDeleteProduct_def)
qed

lemma foldl_pageStep_rows:
  "set (foldl pageStep products events)
     \<subseteq> set products \<union> set getMockProducts \<union> set (delivered events)"
proof (induction events arbitrary: products)
  case Nil
  then show ?case by auto
next
  case (Cons e events)
  have "set (foldl pageStep (pageStep products e) events)
      \<subseteq> set (pageStep products e) \<union> set getMockProducts \<union> set (delivered events)"
    by (rule Cons.IH)
  with pageStep_rows [of products e] show ?case
    by (auto simp: delivered_def)
qed

lemma pageAfter_rows:
  "set (pageAfter events) \<subseteq> set getMockProducts \<union> set (delivered events)"
  using foldl_pageStep_rows [of "[]" events] by (simp add: pageAfter_def)

lemma pageAfter_Load: "pageAfter (events @ [Load response]) = loadProducts response"
  by (simp add: pageAfter_def)

text \<open>
  Claim C1, as amended. The inventory page does not compute a stock status: it shows the
  \<open>stock_status\<close> field of the rows it holds. After any sequence of loads, additions,
  edits and deletions every row is one of the three mock rows or a row delivered by a
  reply; after a successful load the statuses shown are those of the reply, and after a
  failed load the rows are the mock list. The statuses written in the mock list equal
  the specification's function of quantity, minimum and maximum threshold
  (\<open>computeStockStatus\<close>: 0 gives OUT_OF_STOCK, below the minimum LOW_STOCK, above a set
  maximum OVERSTOCK, otherwise NORMAL). Hence every status shown equals that function of
  the row's quantity whenever every delivered row's status does.
\<close>

theorem displayed_status_is_the_delivered_status:
  "(\<forall>p\<in>set (pageAfter events). p \<in> set getMockProducts \<or> p \<in> set (delivered events)) \<and>
   map stock_status (pageAfter (events @ [Load (Some rows)])) = map stock_status rows \<and>
   pageAfter (events @ [Load None]) = getMockProducts \<and>
   (\<forall>p\<in>set getMockProducts.
      stock_status p =
        computeStockStatus (quantity_in_stock p) (min_stock_threshold p) (max_stock_threshold p)) \<and>
   ((\<forall>p\<in>set (delivered events).
       stock_status p =
         computeStockStatus (quantity_in_stock p) (min_stock_threshold p) (max_stock_threshold p))
    \<longrightarrow>
    (\<forall>p\<in>set (pageAfter events).
       stock_status p =
         computeStockStatus (quantity_in_stock p) (min_stock_threshold p) (max_stock_threshold p)))"
proof (intro conjI impI)
  show rows: "\<forall>p\<in>set (pageAfter events). p \<in> set getMockProducts \<or> p \<in> set (delivered events)"
    using pageAfter_rows [of events] by blast
  show "map stock_status (pageAfter (events @ [Load (Some rows)])) = map stock_status rows"
    by (simp add: pageAfter_Load loadProducts_def)
  show "pageAfter (events @ [Load None]) = getMockProducts"
    by (simp add: pageAfter_Load loadProducts_def)
  show mock: "\<forall>p\<in>set getMockProducts.
      stock_status p =
        computeStockStatus (quantity_in_stock p) (min_stock_threshold p) (max_stock_threshold p)"
    using statusConsistent_mock by (simp add: statusConsistent_def)
  assume "\<forall>p\<in>set (delivered events).
       stock_status p =
         computeStockStatus (quantity_in_stock p) (min_stock_threshold p) (max_stock_threshold p)"
  with rows mock show "\<forall>p\<in>set (pageAfter events).
       stock_status p =
         computeStockStatus (quantity_in_stock p) (min_stock_threshold p) (max_stock_threshold p)"
    by blast
qed


theorem displayed_status_is_the_delivered_status_witness:
  "pageAfter [Load None, Add (Some (staleRow\<lparr>stock_status := OUT_OF_STOCK\<rparr>))]
     = staleRow\<lparr>stock_status := OUT_OF_STOCK\<rparr> # getMockProducts \<and>
   delivered [Load None, Add (Some (staleRow\<lparr>stock_status := OUT_OF_STOCK\<rparr>))]
     = [staleRow\<lparr>stock_status := OUT_OF_STOCK\<rparr>] \<and>
   computeStockStatus (quantity_in_stock (staleRow\<lparr>stock_status := OUT_OF_STOCK\<rparr>))
       (min_stock_threshold (staleRow\<lparr>stock_status := OUT_OF_STOCK\<rparr>))
       (max_stock_threshold (staleRow\<lparr>stock_status := OUT_OF_STOCK\<rparr>)) = OUT_OF_STOCK \<and>
   map stock_status (pageAfter [Load None, Add (Some (staleRow\<lparr>stock_status := OUT_OF_STOCK\<rparr>))])
     = [OUT_OF_STOCK, NORMAL, LOW_STOCK, OUT_OF_STOCK] \<and>
   map (\<lambda>p. computeStockStatus (quantity_in_stock p) (min_stock_threshold p)
              (max_stock_threshold p))
       (pageAfter [Load None, Add (Some (staleRow\<lparr>stock_status := OUT_OF_STOCK\<rparr>))])
     = [OUT_OF_STOCK, NORMAL, LOW_STOCK, OUT_OF_STOCK]"
proof -
  let ?row = "staleRow\<lparr>stock_status := OUT_OF_STOCK\<rparr>"
  let ?events = "[Load None, Add (Some ?row)]"
  have a: "pageAfter ?events = ?row # getMockProducts"
    by (simp add: pageAfter_def loadProducts_def handleAddProduct_def)
  have d: "delivered ?events = [?row]"
    by (simp add: delivered_def)
  have c: "computeStockStatus (quantity_in_stock ?row) (min_stock_threshold ?row)
             (max_stock_threshold ?row) = OUT_OF_STOCK"
    by (simp add: staleRow_def computeStockStatus_def)
  have s: "map stock_status (pageAfter ?events) = [OUT_OF_STOCK, NORMAL, LOW_STOCK, OUT_OF_STOCK]"
    unfolding a by (simp add: getMockProducts_def mockProduct_def)
  have h: "\<forall>p\<in>set (delivered ?events).
       stock_status p =
         computeStockStatus (quantity_in_stock p) (min_stock_threshold p) (max_stock_threshold p)"
    unfolding d using c by simp
  from displayed_status_is_the_delivered_status [of ?events "[]"] h
  have "\<forall>p\<in>set (pageAfter ?events).
       stock_status p =
         computeStockStatus (quantity_in_stock p) (min_stock_threshold p) (max_stock_threshold p)"
    by blast
  then have "map (\<lambda>p. computeStockStatus (quantity_in_stock p) (min_stock_threshold p)
              (max_stock_threshold p)) (pageAfter ?events) = map stock_status (pageAfter ?events)"
    by simp
  with a d c s show ?thesis by simp
qed


text \<open>
  The claim as stated fails: a reply row with quantity 0 and status NORMAL is shown as
  NORMAL, although the function of its quantity is OUT_OF_STOCK; and after a failed load
  the statuses shown are the three written in \<open>getMockProducts\<close>.
\<close>

theorem displayed_status_counterexample:
  "pageAfter [Load (Some [staleRow])] = [staleRow] \<and>
   quantity_in_stock staleRow = 0 \<and>
   stock_status staleRow = NORMAL \<and>
   computeStockStatus (quantity_in_stock staleRow) (min_stock_threshold staleRow)
     (max_stock_threshold staleRow) = OUT_OF_STOCK \<and>
   map stock_status (pageAfter [Load None]) = [NORMAL, LOW_STOCK, OUT_OF_STOCK]"
  by (simp add: pageAfter_def loadProducts_def staleRow_def getMockProducts_def mockProduct_def
      computeStockStatus_def)

subsection \<open>Facts about the edit path\<close>

lemma sku_handleInputChange:
  "PartialProduct.sku (handleInputChange_EditProductModal (onChange c) formData)
     = PartialProduct.sku formData"
  by (cases c) simp_all

lemma sku_foldl_handleInputChange:
  "PartialProduct.sku
     (foldl (\<lambda>formData c. handleInputChange_EditProductModal (onChange c) formData) f0 controls)
   = PartialProduct.sku f0"
  by (induction controls arbitrary: f0) (simp_all add: sku_handleInputChange)

lemma sku_editFormAfter:
  "PartialProduct.sku (editFormAfter product controls) = Some (Product.sku product)"
  unfolding editFormAfter_def sku_foldl_handleInputChange by (simp add: populate_def)

lemma handleSubmit_EditProductModal_payload:
  assumes "handleSubmit_EditProductModal toISOString (Some product) formData = Some (ident, payload)"
  shows "ident = Product.id product \<and> PartialProduct.sku payload = PartialProduct.sku formData"
  using assms
  by (auto simp: handleSubmit_EditProductModal_def split: if_splits option.splits)


text \<open>
  Claim C7, as amended. The edit path never submits a modified SKU: the edit form is
  filled from the product, none of its controls writes \<open>sku\<close>, and whenever
  \<open>handleSubmit\<close> calls \<open>onSave\<close> it does so with the product's id and a payload whose
  \<open>sku\<close> is the product's SKU, which \<open>ProductService.updateProduct\<close> sends as it is.
  (What an update carrying a different SKU does to the stored SKU is decided by the
  backend; the client code neither rejects nor drops it.)
\<close>

theorem edit_path_submits_the_products_sku:
  "PartialProduct.sku (editFormAfter product controls) = Some (Product.sku product) \<and>
   (\<forall>ident payload.
      handleSubmit_EditProductModal toISOString (Some product) (editFormAfter product controls)
        = Some (ident, payload) \<longrightarrow>
      ident = Product.id product \<and>
      PartialProduct.sku payload = Some (Product.sku product) \<and>
      PartialProduct.sku (body (updateProduct ident payload)) = Some (Product.sku product))"
proof (intro conjI allI impI)
  show "PartialProduct.sku (editFormAfter product controls) = Some (Product.sku product)"
    by (rule sku_editFormAfter)
next
  fix ident payload
  assume h: "handleSubmit_EditProductModal toISOString (Some product)
               (editFormAfter product controls) = Some (ident, payload)"
  from handleSubmit_EditProductModal_payload [OF h]
  show "ident = Product.id product"
    and s: "PartialProduct.sku payload = Some (Product.sku product)"
    by (simp_all add: sku_editFormAfter)
  from s show "PartialProduct.sku (body (updateProduct ident payload)) = Some (Product.sku product)"
    by (simp add: updateProduct_def)
qed


theorem edit_path_submits_the_products_sku_witness:
  "map_option fst (handleSubmit_EditProductModal Some (Some (hd getMockProducts))
     (editFormAfter (hd getMockProducts) [NameInput ''Milk 2L'', BarcodeInput ''5000''])) = Some ''1'' \<and>
   map_option (\<lambda>r. PartialProduct.name (snd r))
     (handleSubmit_EditProductModal Some (Some (hd getMockProducts))
        (editFormAfter (hd getMockProducts) [NameInput ''Milk 2L'', BarcodeInput ''5000'']))
     = Some (Some ''Milk 2L'') \<and>
   map_option (\<lambda>r. PartialProduct.sku (snd r))
     (handleSubmit_EditProductModal Some (Some (hd getMockProducts))
        (editFormAfter (hd getMockProducts) [NameInput ''Milk 2L'', BarcodeInput ''5000'']))
     = Some (Some ''MILK-001'')"
proof -
  let ?form = "editFormAfter (hd getMockProducts) [NameInput ''Milk 2L'', BarcodeInput ''5000'']"
  note t = edit_path_submits_the_products_sku
    [where toISOString = Some and product = "hd getMockProducts"
       and controls = "[NameInput ''Milk 2L'', BarcodeInput ''5000'']"]
  have s0: "Product.sku (hd getMockProducts) = ''MILK-001''" "Product.id (hd getMockProducts) = ''1''"
    by (simp_all add: getMockProducts_def mockProduct_def)
  have n: "map_option (\<lambda>r. PartialProduct.name (snd r))
     (handleSubmit_EditProductModal Some (Some (hd getMockProducts)) ?form) = Some (Some ''Milk 2L'')"
    by code_simp
  then obtain i p where e3:
    "handleSubmit_EditProductModal Some (Some (hd getMockProducts)) ?form = Some (i, p)"
    by (cases "handleSubmit_EditProductModal Some (Some (hd getMockProducts)) ?form") auto
  have b: "i = ''1''" "PartialProduct.sku p = Some ''MILK-001''"
    using t e3 by (simp_all add: s0)
  show ?thesis
    using n b unfolding e3 by simp
qed


text \<open>
  The claim as stated fails on the client's side of an update:
  \<open>ProductService.updateProduct\<close> forwards a payload with a different SKU unchanged, and
  the inventory page replaces the row by the reply, so a reply carrying the new SKU
  changes the SKU shown for product 1.
\<close>

theorem sku_update_counterexample:
  "PartialProduct.sku
     (body (updateProduct ''1'' (emptyPartial\<lparr>PartialProduct.sku := Some ''NEW-1''\<rparr>)))
     = Some ''NEW-1'' \<and>
   map Product.sku (pageAfter [Load None]) = [''MILK-001'', ''BREAD-001'', ''FRUIT-001''] \<and>
   map Product.sku (pageAfter [Load None, Edit ''1'' (Some renamedRow)])
     = [''NEW-1'', ''BREAD-001'', ''FRUIT-001'']"
  by (simp add: updateProduct_def emptyPartial_def pageAfter_def loadProducts_def
      handleEditProduct_def renamedRow_def getMockProducts_def mockProduct_def)

subsection \<open>Facts about the Stock Adjustment Log\<close>

lemma replay_sum: "replay q es = q + (\<Sum>e\<leftarrow>es. delta e)"
  unfolding replay_def by (induction es arbitrary: q) (simp_all add: add.assoc)

lemma entriesFor_append: "entriesFor ident (xs @ ys) = entriesFor ident xs @ entriesFor ident ys"
  by (simp add: entriesFor_def)

lemma attempt_step:
  assumes "quantityOf L ident = Some q"
  shows "\<exists>new. adjustments (attempt L c) = adjustments L @ new \<and>
           quantityOf (attempt L c) ident = Some (q + (\<Sum>e\<leftarrow>entriesFor ident new. delta e))"
proof (cases "productRows L (target c)")
  case None
  then have "attempt L c = L" by (simp add: attempt_def adjustStock_def)
  with assms show ?thesis by (intro exI [of _ "[]"]) (simp add: entriesFor_def)
next
  case (Some p)
  show ?thesis
  proof (cases "newQuantity c < 0")
    case True
    with Some have "attempt L c = L" by (simp add: attempt_def adjustStock_def)
    with assms show ?thesis by (intro exI [of _ "[]"]) (simp add: entriesFor_def)
  next
    case False
    let ?e = "\<lparr> entry_product_id = target c, old_quantity = quantity_in_stock p,
                 new_quantity = newQuantity c, reason = cmd_reason c,
                 entry_notes = cmd_notes c, actor = cmd_actor c, timestamp = cmd_time c \<rparr>"
    from Some False have a: "attempt L c =
        L\<lparr> productRows := (productRows L)(target c \<mapsto> p\<lparr>quantity_in_stock := newQuantity c\<rparr>),
           adjustments := adjustments L @ [?e] \<rparr>"
      by (simp add: attempt_def adjustStock_def)
    show ?thesis
    proof (cases "target c = ident")
      case True
      with Some assms have q: "q = quantity_in_stock p" by (simp add: quantityOf_def)
      show ?thesis
        unfolding a using True q
        by (intro exI [of _ "[?e]"]) (simp add: quantityOf_def entriesFor_def delta_def)
    next
      case False
      show ?thesis
        unfolding a using False assms
        by (intro exI [of _ "[?e]"]) (simp add: quantityOf_def entriesFor_def)
    qed
  qed
qed

lemma attempts_run:
  "quantityOf L ident = Some q \<Longrightarrow>
   \<exists>new. adjustments (foldl attempt L cmds) = adjustments L @ new \<and>
         quantityOf (foldl attempt L cmds) ident
           = Some (q + (\<Sum>e\<leftarrow>entriesFor ident new. delta e))"
proof (induction cmds arbitrary: L q)
  case Nil
  then show ?case by (intro exI [of _ "[]"]) (simp add: entriesFor_def)
next
  case (Cons c cmds)
  from attempt_step [OF Cons.prems, of c] obtain new1 where
    n1: "adjustments (attempt L c) = adjustments L @ new1"
    and q1: "quantityOf (attempt L c) ident = Some (q + (\<Sum>e\<leftarrow>entriesFor ident new1. delta e))"
    by blast
  from Cons.IH [OF q1] obtain new2 where
    n2: "adjustments (foldl attempt (attempt L c) cmds) = adjustments (attempt L c) @ new2"
    and q2: "quantityOf (foldl attempt (attempt L c) cmds) ident
        = Some (q + (\<Sum>e\<leftarrow>entriesFor ident new1. delta e) + (\<Sum>e\<leftarrow>entriesFor ident new2. delta e))"
    by blast
  show ?case
    using n1 n2 q2 by (intro exI [of _ "new1 @ new2"]) (simp add: entriesFor_append)
qed

lemma sample_run:
  "adjustments (foldl attempt sampleLedger
      [adjustTo ''1'' 15, adjustTo ''1'' (- 3), adjustTo ''2'' 9, adjustTo ''1'' 0, adjustTo ''1'' 250])
   = [\<lparr> entry_product_id = ''1'', old_quantity = 45, new_quantity = 15, reason = CORRECTION,
         entry_notes = None, actor = ''clerk'', timestamp = 0 \<rparr>,
      \<lparr> entry_product_id = ''1'', old_quantity = 15, new_quantity = 0, reason = CORRECTION,
         entry_notes = None, actor = ''clerk'', timestamp = 0 \<rparr>,
      \<lparr> entry_product_id = ''1'', old_quantity = 0, new_quantity = 250, reason = CORRECTION,
         entry_notes = None, actor = ''clerk'', timestamp = 0 \<rparr>]"
  by (simp add: sampleLedger_def adjustTo_def attempt_def adjustStock_def
      getMockProducts_def mockProduct_def)

text \<open>
  Claim C3. For a product of the ledger and any finite sequence of \<open>adjustStock\<close>
  calls (on this or other products, succeeding or failing), the final quantity is the
  initial quantity plus the sum of the deltas (new minus old) of the entries recorded
  for that product by these calls; replaying those entries from the initial quantity
  gives the current quantity.
\<close>

theorem adjustment_log_replay:
  assumes "productRows L0 ident = Some p0"
  shows "quantityOf (foldl attempt L0 cmds) ident =
           Some (quantity_in_stock p0 +
                 (\<Sum>e\<leftarrow>entriesFor ident
                        (drop (length (adjustments L0)) (adjustments (foldl attempt L0 cmds))).
                    new_quantity e - old_quantity e)) \<and>
         quantityOf (foldl attempt L0 cmds) ident =
           Some (replay (quantity_in_stock p0)
                   (entriesFor ident
                      (drop (length (adjustments L0)) (adjustments (foldl attempt L0 cmds)))))"
proof -
  from assms have "quantityOf L0 ident = Some (quantity_in_stock p0)"
    by (simp add: quantityOf_def)
  from attempts_run [OF this, of cmds] obtain new where
    n: "adjustments (foldl attempt L0 cmds) = adjustments L0 @ new"
    and q: "quantityOf (foldl attempt L0 cmds) ident
        = Some (quantity_in_stock p0 + (\<Sum>e\<leftarrow>entriesFor ident new. delta e))"
    by blast
  have d: "drop (length (adjustments L0)) (adjustments (foldl attempt L0 cmds)) = new"
    by (simp add: n)
  have s: "(\<Sum>e\<leftarrow>entriesFor ident new. new_quantity e - old_quantity e)
         = (\<Sum>e\<leftarrow>entriesFor ident new. delta e)"
    by (simp add: delta_def)
  show ?thesis
    unfolding d s replay_sum using q by simp
qed

theorem adjustment_log_replay_witness:
  "productRows sampleLedger ''1'' = Some (hd getMockProducts) \<and>
   quantity_in_stock (hd getMockProducts) = 45 \<and>
   quantityOf (foldl attempt sampleLedger
      [adjustTo ''1'' 15, adjustTo ''1'' (- 3), adjustTo ''2'' 9, adjustTo ''1'' 0, adjustTo ''1'' 250]) ''1''
     = Some (45 + ((15 - 45) + (0 - 15) + (250 - 0))) \<and>
   replay 45 (adjustments (foldl attempt sampleLedger
      [adjustTo ''1'' 15, adjustTo ''1'' (- 3), adjustTo ''2'' 9, adjustTo ''1'' 0, adjustTo ''1'' 250]))
     = 250"
proof -
  have h: "productRows sampleLedger ''1'' = Some (hd getMockProducts)"
    by (simp add: sampleLedger_def)
  have q: "quantity_in_stock (hd getMockProducts) = 45"
    by (simp add: getMockProducts_def mockProduct_def)
  have a: "adjustments sampleLedger = []"
    by (simp add: sampleLedger_def)
  note t = adjustment_log_replay [OF h,
      of "[adjustTo ''1'' 15, adjustTo ''1'' (- 3), adjustTo ''2'' 9, adjustTo ''1'' 0, adjustTo ''1'' 250]"]
  show ?thesis
    using h q t unfolding sample_run a
    by (simp add: entriesFor_def replay_def delta_def)
qed

subsection \<open>Facts about receiving\<close>

lemma findIndex_less: "findIndex P xs = Some i \<Longrightarrow> i < length xs"
  by (induction xs arbitrary: i) (auto split: if_splits option.splits)

lemma findIndex_map_cong:
  "map f xs = map f ys \<Longrightarrow> findIndex (\<lambda>x. g (f x)) xs = findIndex (\<lambda>x. g (f x)) ys"
proof (induction xs arbitrary: ys)
  case Nil
  then show ?case by simp
next
  case (Cons x xs)
  then obtain y ys' where ys: "ys = y # ys'" "f x = f y" "map f xs = map f ys'"
    by (cases ys) auto
  with Cons.IH [of ys'] show ?case by simp
qed

lemma ids_receiveLine: "PurchaseOrderItem.id (receiveLine r li) = PurchaseOrderItem.id li"
  by (simp add: receiveLine_def)

lemma ordered_receiveLine:
  "PurchaseOrderItem.quantity_ordered (receiveLine r li) = PurchaseOrderItem.quantity_ordered li"
  by (simp add: receiveLine_def)

lemma received_receiveLine:
  "receivedSoFar (receiveLine r li) = receivedSoFar li + ReceiveItem.quantity_received r"
  by (simp add: receiveLine_def receivedSoFar_def)

lemma ids_update:
  "j < length lines \<Longrightarrow>
   map PurchaseOrderItem.id (lines[j := receiveLine r (lines ! j)]) = map PurchaseOrderItem.id lines"
  by (simp add: map_update ids_receiveLine list_update_same_conv)

lemma lineOf_update:
  assumes "j < length lines"
  shows "lineOf (lines[j := receiveLine r (lines ! j)]) r' = lineOf lines r'"
  unfolding lineOf_def
  by (rule findIndex_map_cong [where f = PurchaseOrderItem.id and g = "\<lambda>v. v = Some (item_id r')"])
     (rule ids_update [OF assms])

lemma batchTotal_alt:
  "batchTotal lines rs i = (\<Sum>r\<leftarrow>filter (\<lambda>r. lineOf lines r = Some i) rs. ReceiveItem.quantity_received r)"
  by (simp add: batchTotal_def lineOf_def)

lemma batchTotal_update:
  assumes "j < length lines"
  shows "batchTotal (lines[j := receiveLine r (lines ! j)]) rs i = batchTotal lines rs i"
  by (simp add: batchTotal_alt lineOf_update [OF assms])

lemma batchTotal_Cons:
  "batchTotal lines (r # rs) i =
     (if lineOf lines r = Some i then ReceiveItem.quantity_received r else 0) + batchTotal lines rs i"
  by (simp add: batchTotal_alt)

lemma receiveInto_within_order:
  assumes "\<forall>li\<in>set lines. receivedSoFar li \<le> PurchaseOrderItem.quantity_ordered li"
    and "receiveInto lines rs = Inr lines'"
  shows "\<forall>i<length lines.
           receivedSoFar (lines ! i) + batchTotal lines rs i
             \<le> PurchaseOrderItem.quantity_ordered (lines ! i)"
  using assms
proof (induction rs arbitrary: lines)
  case Nil
  then show ?case by (simp add: batchTotal_def)
next
  case (Cons r rs)
  from Cons.prems(2) obtain j where j: "lineOf lines r = Some j"
    by (auto simp: lineOf_def split: option.splits)
  then have jl: "j < length lines" by (simp add: lineOf_def findIndex_less)
  let ?lines1 = "lines[j := receiveLine r (lines ! j)]"
  from Cons.prems(2) j have ok:
    "receivedSoFar (lines ! j) + ReceiveItem.quantity_received r
       \<le> PurchaseOrderItem.quantity_ordered (lines ! j)"
    and rest: "receiveInto ?lines1 rs = Inr lines'"
    by (auto simp: lineOf_def split: if_splits)
  have inv1: "\<forall>li\<in>set ?lines1. receivedSoFar li \<le> PurchaseOrderItem.quantity_ordered li"
  proof
    fix li assume "li \<in> set ?lines1"
    then have "li = receiveLine r (lines ! j) \<or> li \<in> set lines"
      using set_update_subset_insert [of lines j "receiveLine r (lines ! j)"] by blast
    then show "receivedSoFar li \<le> PurchaseOrderItem.quantity_ordered li"
      using ok Cons.prems(1) by (auto simp: received_receiveLine ordered_receiveLine)
  qed
  note ih = Cons.IH [OF inv1 rest]
  show ?case
  proof (intro allI impI)
    fix i assume i: "i < length lines"
    with ih have b: "receivedSoFar (?lines1 ! i) + batchTotal ?lines1 rs i
        \<le> PurchaseOrderItem.quantity_ordered (?lines1 ! i)" by simp
    show "receivedSoFar (lines ! i) + batchTotal lines (r # rs) i
        \<le> PurchaseOrderItem.quantity_ordered (lines ! i)"
    proof (cases "i = j")
      case True
      with b jl show ?thesis
        by (simp add: batchTotal_update batchTotal_Cons j received_receiveLine ordered_receiveLine)
    next
      case False
      with b jl show ?thesis
        by (simp add: batchTotal_update batchTotal_Cons j)
    qed
  qed
qed

lemma receiveInto_error:
  assumes "\<forall>r\<in>set rs. Some (item_id r) \<in> set (map PurchaseOrderItem.id lines)"
    and "receiveInto lines rs = Inl e"
  shows "e = OverReceiptError"
  using assms
proof (induction rs arbitrary: lines)
  case Nil
  then show ?case by simp
next
  case (Cons r rs)
  have "lineOf lines r \<noteq> None"
    using Cons.prems(1) by (auto simp: lineOf_def findIndex_None)
  then obtain j where j: "lineOf lines r = Some j" by auto
  then have jl: "j < length lines" by (simp add: lineOf_def findIndex_less)
  show ?case
  proof (cases "receivedSoFar (lines ! j) + ReceiveItem.quantity_received r
               > PurchaseOrderItem.quantity_ordered (lines ! j)")
    case True
    with Cons.prems(2) j show ?thesis by (simp add: lineOf_def)
  next
    case False
    with Cons.prems(2) j have rest:
      "receiveInto (lines[j := receiveLine r (lines ! j)]) rs = Inl e"
      by (simp add: lineOf_def)
    have "\<forall>r'\<in>set rs. Some (item_id r')
        \<in> set (map PurchaseOrderItem.id (lines[j := receiveLine r (lines ! j)]))"
      using Cons.prems(1) by (simp only: ids_update [OF jl]) simp
    from Cons.IH [OF this rest] show ?thesis .
  qed
qed

text \<open>
  Claim C4. A \<open>receive\<close> call against an order that can be received (status ORDERED
  or SHIPPED, every batch element referencing a line item of the order, no line item
  already above its ordered quantity) in which the batch would take some line item's
  cumulative received quantity above its ordered quantity fails with
  \<open>OverReceiptError\<close> and leaves the whole state as it was: every line item's
  \<open>quantity_received\<close>, every product's \<open>quantity_in_stock\<close> and the adjustment log.
  More generally, every failing \<open>receive\<close> call leaves the state unchanged.
\<close>

theorem over_receipt_is_all_or_nothing:
  assumes "po_status (purchaseOrder st) = ORDERED \<or> po_status (purchaseOrder st) = SHIPPED"
    and "\<forall>r\<in>set (batch d).
           Some (item_id r) \<in> set (map PurchaseOrderItem.id (po_items (purchaseOrder st)))"
    and "\<forall>li\<in>set (po_items (purchaseOrder st)).
           receivedSoFar li \<le> PurchaseOrderItem.quantity_ordered li"
    and "i < length (po_items (purchaseOrder st))"
    and "receivedSoFar (po_items (purchaseOrder st) ! i)
           + batchTotal (po_items (purchaseOrder st)) (batch d) i
         > PurchaseOrderItem.quantity_ordered (po_items (purchaseOrder st) ! i)"
  shows "receive today now st d = (Some OverReceiptError, st) \<and>
         (\<forall>st' d'. fst (receive today now st' d') \<noteq> None \<longrightarrow>
                   snd (receive today now st' d') = st')"
proof
  show "receive today now st d = (Some OverReceiptError, st)"
  proof (cases "receiveInto (po_items (purchaseOrder st)) (batch d)")
    case (Inl e)
    with receiveInto_error [OF assms(2) Inl] assms(1) show ?thesis
      by (auto simp: receive_def)
  next
    case (Inr lines')
    from receiveInto_within_order [OF assms(3) Inr] assms(4,5) show ?thesis
      by fastforce
  qed
  show "\<forall>st' d'. fst (receive today now st' d') \<noteq> None \<longrightarrow>
                  snd (receive today now st' d') = st'"
    by (simp add: receive_def split: sum.splits)
qed

theorem over_receipt_is_all_or_nothing_witness:
  "po_status (purchaseOrder sampleState) = ORDERED \<and>
   length (po_items (purchaseOrder sampleState)) = 1 \<and>
   PurchaseOrderItem.quantity_ordered (po_items (purchaseOrder sampleState) ! 0) = 10 \<and>
   receivedSoFar (po_items (purchaseOrder sampleState) ! 0) = 0 \<and>
   batchTotal (po_items (purchaseOrder sampleState)) (batch overBatch) 0 = 12 \<and>
   receive ''2024-12-01'' 7 sampleState overBatch = (Some OverReceiptError, sampleState)"
proof -
  have a: "po_status (purchaseOrder sampleState) = ORDERED \<or>
           po_status (purchaseOrder sampleState) = SHIPPED"
    by (simp add: sampleState_def)
  have b: "\<forall>r\<in>set (batch overBatch).
      Some (item_id r) \<in> set (map PurchaseOrderItem.id (po_items (purchaseOrder sampleState)))"
    by (simp add: sampleState_def overBatch_def)
  have c: "\<forall>li\<in>set (po_items (purchaseOrder sampleState)).
      receivedSoFar li \<le> PurchaseOrderItem.quantity_ordered li"
    by (simp add: sampleState_def receivedSoFar_def)
  have d: "0 < length (po_items (purchaseOrder sampleState))"
    by (simp add: sampleState_def)
  have t: "batchTotal (po_items (purchaseOrder sampleState)) (batch overBatch) 0 = 12"
    by (simp add: batchTotal_def sampleState_def overBatch_def)
  have q: "PurchaseOrderItem.quantity_ordered (po_items (purchaseOrder sampleState) ! 0) = 10"
      "receivedSoFar (po_items (purchaseOrder sampleState) ! 0) = 0"
    by (simp_all add: sampleState_def receivedSoFar_def)
  have e: "receivedSoFar (po_items (purchaseOrder sampleState) ! 0)
           + batchTotal (po_items (purchaseOrder sampleState)) (batch overBatch) 0
         > PurchaseOrderItem.quantity_ordered (po_items (purchaseOrder sampleState) ! 0)"
    by (simp add: t q)
  have s: "po_status (purchaseOrder sampleState) = ORDERED"
      "length (po_items (purchaseOrder sampleState)) = 1"
    by (simp_all add: sampleState_def)
  have r: "receive ''2024-12-01'' 7 sampleState overBatch = (Some OverReceiptError, sampleState)"
    using over_receipt_is_all_or_nothing [OF a b c d e, of "''2024-12-01''" 7] by blast
  from s t q r show ?thesis by simp
qed

subsection \<open>Facts about list requests and replies\<close>

















end
